theory Spec2Isabelle
  imports Complex_Main "HOL-Library.Monad_Syntax"
begin

section \<open>JavaScript values used by the checkout backend\<close>

text \<open>
  A JavaScript \<open>number\<close> is modelled as a real: the sums and products of the handlers are
  read as exact arithmetic, and the rounding error of IEEE doubles is outside the model.
  A value that may be \<open>undefined\<close> or \<open>null\<close> is an \<open>option\<close>. Strings are lists of
  bytes; the only characters the code inspects are the ASCII digits and letters, which are
  one byte in UTF-8 and one code unit in UTF-16, so lengths of digit strings agree.
\<close>

type_synonym number = real

text \<open>\<open>!v\<close> for a string that may be absent: \<open>undefined\<close>, \<open>null\<close> and \<open>""\<close> are falsy.\<close>

definition truthy :: "string option \<Rightarrow> bool" where
  "truthy v = (case v of None \<Rightarrow> False | Some s \<Rightarrow> s \<noteq> [])"

text \<open>\<open>v || d\<close> with a string default.\<close>

definition or_else :: "string option \<Rightarrow> string \<Rightarrow> string" where
  "or_else v d = (case v of None \<Rightarrow> d | Some s \<Rightarrow> if s = [] then d else s)"

text \<open>\<open>v || null\<close>.\<close>

definition or_null :: "string option \<Rightarrow> string option" where
  "or_null v = (if truthy v then v else None)"

text \<open>\<open>Math.round\<close>: the nearest integer, a tie going towards plus infinity.\<close>

definition Math_round :: "number \<Rightarrow> number" where
  "Math_round x = of_int \<lfloor>x + 1 / 2\<rfloor>"

text \<open>The character class \<open>\d\<close>, and \<open>s.replace(/\D/g, "")\<close>.\<close>

definition isDigit :: "char \<Rightarrow> bool" where
  "isDigit c = (c \<in> set ''0123456789'')"

fun replace_non_digits :: "string \<Rightarrow> string" where
  "replace_non_digits [] = []"
| "replace_non_digits (c # cs) =
     (if isDigit c then c # replace_non_digits cs else replace_non_digits cs)"

text \<open>\<open>s.replace("T", " ")\<close>: only the first occurrence is replaced.\<close>

fun replace_T :: "string \<Rightarrow> string" where
  "replace_T [] = []"
| "replace_T (c # cs) = (if c = CHR ''T'' then CHR '' '' # cs else c # replace_T cs)"

text \<open>
  \<open>s.toLowerCase()\<close> is a builtin whose Unicode case mapping is not modelled: it is a
  parameter of the outside world (field \<open>toLowerCase\<close> below), so every fact proved
  holds whatever it returns. On ASCII strings it is the following function, which the
  concrete world of the examples uses.
\<close>

definition lower_char :: "char \<Rightarrow> char" where
  "lower_char c =
     (case map_of (zip ''ABCDEFGHIJKLMNOPQRSTUVWXYZ'' ''abcdefghijklmnopqrstuvwxyz'') c of
        None \<Rightarrow> c
      | Some l \<Rightarrow> l)"

definition ascii_toLowerCase :: "string \<Rightarrow> string" where
  "ascii_toLowerCase s = map lower_char s"

section \<open>Payment Provider client: pure functions (src/lib/slimpay.ts)\<close>

text \<open>
  \<open>verifyWebhookToken(receivedToken, expectedToken?)\<close>: a falsy expected token means that
  none is configured and the check is skipped.
\<close>

definition verifyWebhookToken :: "string option \<Rightarrow> string option \<Rightarrow> bool" where
  "verifyWebhookToken receivedToken expectedToken =
     (if \<not> truthy expectedToken then True else receivedToken = expectedToken)"

text \<open>\<open>mapSlimPayStatus\<close>: the \<open>switch\<close>, case by case, in the source's order.\<close>

definition mapSlimPayStatus :: "string \<Rightarrow> string" where
  "mapSlimPayStatus status =
     (if status = ''COMPLETED'' then ''paid''
      else if status = ''PENDING'' then ''waiting_payment''
      else if status = ''FAILED'' \<or> status = ''REJECTED'' \<or> status = ''CANCELED''
        then ''refused''
      else if status = ''REFUNDED'' then ''refunded''
      else if status = ''CHARGED_BACK'' then ''chargedback''
      else ''waiting_payment'')"

section \<open>Tracking Service client: status mapping (src/lib/utmfy.ts)\<close>

definition mapStatusToUtmfy :: "string \<Rightarrow> string" where
  "mapStatusToUtmfy status =
     (if status = ''waiting_payment'' \<or> status = ''pending'' then ''waiting_payment''
      else if status = ''approved'' \<or> status = ''paid'' then ''paid''
      else if status = ''refused'' \<or> status = ''cancelled'' then ''refused''
      else if status = ''refunded'' then ''refunded''
      else if status = ''chargeback'' then ''chargedback''
      else ''waiting_payment'')"

section \<open>Data model\<close>

text \<open>
  One record per interface of the source. Where two interfaces share a field name, the
  record field carries a prefix (\<open>customer_name\<close>, \<open>client_name\<close>, \<open>so_name\<close>);
  an optional field (\<open>f?: T\<close>) and a nullable one are options.
\<close>

subsection \<open>The checkout payload (\<open>CreatePixRequest\<close>)\<close>

text \<open>
  The four customer fields and the item list are options because the handler tests them
  for presence; the address is read without a test, so it has the shape the interface
  declares.
\<close>

record ReqCustomer =
  customer_name :: "string option"
  customer_email :: "string option"
  customer_cpf :: "string option"
  customer_phone :: "string option"

record ReqAddress =
  address_cep :: string
  address_street :: string
  address_number :: string
  address_complement :: "string option"
  address_neighborhood :: string
  address_city :: string
  address_state :: string

record ReqItem =
  item_id :: string
  item_name :: string
  item_price :: number
  item_quantity :: number

record ReqShipping =
  shipping_id :: string
  shipping_name :: string
  shipping_price :: number
  shipping_days :: string

record TrackingParams =
  src :: "string option"
  sck :: "string option"
  utm_source :: "string option"
  utm_medium :: "string option"
  utm_campaign :: "string option"
  utm_content :: "string option"
  utm_term :: "string option"

record CreatePixRequest =
  customer :: "ReqCustomer option"
  address :: ReqAddress
  items :: "ReqItem list option"
  total :: number
  shipping :: "ReqShipping option"
  trackingParams :: "TrackingParams option"

subsection \<open>Payment Provider types (src/lib/slimpay.ts)\<close>

record SlimPayAddress =
  sp_country :: string
  sp_zipCode :: string
  sp_state :: string
  sp_city :: string
  sp_neighborhood :: string
  sp_street :: string
  sp_number :: string
  sp_complement :: "string option"

record SlimPayClient =
  client_name :: string
  client_email :: string
  client_phone :: string
  client_document :: string
  client_cpf :: "string option"
  client_cnpj :: "string option"
  client_address :: "SlimPayAddress option"

record SlimPayProduct =
  product_id :: string
  product_name :: string
  product_price :: number
  product_quantity :: number

record SlimPaySplit =
  split_accountId :: string
  split_amount :: number

text \<open>The metadata object is a list of key-value pairs in insertion order.\<close>

record SlimPayPixRequest =
  pix_identifier :: string
  amount :: number
  shippingFee :: "number option"
  extraFee :: "number option"
  discount :: "number option"
  client :: SlimPayClient
  products :: "SlimPayProduct list option"
  splits :: "SlimPaySplit list option"
  dueDate :: "string option"
  metadata :: "(string \<times> string) list option"
  callbackUrl :: "string option"

record SlimPayOrder =
  order_id :: string
  order_amount :: number
  order_currency :: string

record SlimPayPix =
  pix_qrCode :: string
  pix_expiresAt :: string

record SlimPayPixResponse =
  transactionId :: string
  charge_status :: string
  fee :: number
  order :: SlimPayOrder
  pix :: SlimPayPix
  details :: "string option"
  errorDescription :: "string option"

text \<open>The result object of \<open>createPixPayment\<close>.\<close>

record PixResult =
  pix_success :: bool
  pix_data :: "SlimPayPixResponse option"
  pix_error :: "string option"
  pix_errorCode :: "string option"

subsection \<open>The webhook payload (\<open>SlimPayWebhookPayload\<close>)\<close>

record WebhookClient =
  wc_id :: string
  wc_name :: string
  wc_email :: string
  wc_phone :: string
  wc_cpf :: "string option"
  wc_cnpj :: "string option"
  wc_address :: "SlimPayAddress option"

record PixInformation =
  pi_qrCode :: string
  pi_endToEndId :: "string option"

record WebhookTransaction =
  tx_id :: string
  tx_identifier :: string
  tx_status :: string
  tx_paymentMethod :: string
  tx_originalCurrency :: string
  tx_originalAmount :: number
  tx_currency :: string
  tx_exchangeRate :: "number option"
  tx_installments :: number
  tx_amount :: number
  tx_createdAt :: string
  tx_payedAt :: "string option"
  tx_pixInformation :: "PixInformation option"

record WebhookProduct =
  wp_id :: string
  wp_name :: string
  wp_externalId :: "string option"

record WebhookOrderItem =
  oi_id :: string
  oi_price :: number
  oi_product :: WebhookProduct

record SlimPayWebhookPayload =
  event :: string
  token :: "string option"
  offerCode :: "string option"
  wh_client :: WebhookClient
  wh_transaction :: WebhookTransaction
  orderItems :: "WebhookOrderItem list"
  trackProps :: "(string \<rightharpoonup> string) option"

subsection \<open>Tracking Service types (src/lib/utmfy.ts)\<close>

record UtmfyCustomer =
  uc_name :: string
  uc_email :: string
  uc_phone :: "string option"
  uc_document :: "string option"
  uc_country :: "string option"
  uc_ip :: "string option"

record UtmfyProduct =
  up_id :: string
  up_name :: string
  up_planId :: "string option"
  up_planName :: "string option"
  up_quantity :: number
  up_priceInCents :: number

record UtmfyTrackingParameters =
  ut_src :: "string option"
  ut_sck :: "string option"
  ut_utm_source :: "string option"
  ut_utm_campaign :: "string option"
  ut_utm_medium :: "string option"
  ut_utm_content :: "string option"
  ut_utm_term :: "string option"

record UtmfyCommission =
  totalPriceInCents :: number
  gatewayFeeInCents :: number
  userCommissionInCents :: number
  currency :: "string option"

text \<open>The Attribution report posted to the Tracking Service.\<close>

record UtmfyOrderRequest =
  uo_orderId :: string
  uo_platform :: string
  uo_paymentMethod :: string
  uo_status :: string
  uo_createdAt :: string
  uo_approvedDate :: "string option"
  uo_refundedAt :: "string option"
  uo_customer :: UtmfyCustomer
  uo_products :: "UtmfyProduct list"
  uo_trackingParameters :: UtmfyTrackingParameters
  uo_commission :: UtmfyCommission

text \<open>\<open>SendOrderParams\<close>, the argument of \<open>sendOrderToUtmfy\<close>.\<close>

record SendOrderCustomer =
  so_name :: string
  so_email :: string
  so_phone :: "string option"
  so_document :: "string option"
  so_country :: "string option"

record SendOrderProduct =
  sop_id :: string
  sop_name :: string
  sop_quantity :: number
  sop_priceInCents :: number

record SendOrderCommission =
  so_totalPriceInCents :: number
  so_gatewayFeeInCents :: number
  so_userCommissionInCents :: number

record SendOrderParams =
  so_orderId :: string
  so_status :: string
  so_paymentMethod :: string
  so_customer :: SendOrderCustomer
  so_products :: "SendOrderProduct list"
  so_commission :: SendOrderCommission
  so_trackingParams :: "TrackingParams option"
  so_approvedDate :: "string option"

text \<open>The result object of \<open>sendOrderToUtmfy\<close>.\<close>

record UtmfyResult =
  utmfy_success :: bool
  utmfy_error :: "string option"
  utmfy_response :: "string option"

subsection \<open>The outside world\<close>

text \<open>
  What the two services answer, the clock and the configuration are parameters of the
  model. An outcome \<open>Threw\<close> stands for an exception raised inside the client's
  \<open>try\<close> block by \<open>fetch\<close> or by reading the response.
\<close>

datatype slimpay_http =
    SlimPayThrew "string option"
  | SlimPayNotOk "string option" "string option"
  | SlimPayOk "SlimPayPixResponse option"

datatype utmfy_http =
    UtmfyThrew string
  | UtmfyResponded bool string

record world =
  SLIMPAY_PUBLIC_KEY :: "string option"
  SLIMPAY_SECRET_KEY :: "string option"
  SLIMPAY_WEBHOOK_TOKEN :: "string option"
  NEXT_PUBLIC_APP_URL :: "string option"
  generated_orderId :: string
  now_iso :: string
  date_iso :: "string \<Rightarrow> string option"
  slimpay_fetch :: "(string \<times> string) list \<Rightarrow> SlimPayPixRequest \<Rightarrow> slimpay_http"
  utmfy_fetch :: "UtmfyOrderRequest \<Rightarrow> utmfy_http"
  toLowerCase :: "string \<Rightarrow> string"

text \<open>
  \<open>SlimPayThrew m\<close>: \<open>m\<close> is the message when the exception is an \<open>Error\<close>.
  \<open>SlimPayNotOk message errorCode\<close>: a response that is not ok, with the two fields of
  its body. \<open>SlimPayOk body\<close>: an ok response with its parsed body (\<open>None\<close> for a falsy
  body such as \<open>null\<close>). \<open>UtmfyResponded ok text\<close>: a response and its text.
  \<open>generated_orderId\<close> is what \<open>generateOrderId()\<close> returns, \<open>now_iso\<close> is
  \<open>new Date().toISOString()\<close>, and \<open>date_iso s\<close> is \<open>new Date(s).toISOString()\<close>,
  \<open>None\<close> when it raises a RangeError. \<open>toLowerCase s\<close> is \<open>s.toLowerCase()\<close>.
\<close>

text \<open>
  Every handler returns its HTTP response together with the log of what it did outside:
  the client operations it invoked and the HTTP requests those sent, in order.
\<close>

datatype effect =
    Call_createPixPayment SlimPayPixRequest
  | Fetch_SlimPay "(string \<times> string) list" SlimPayPixRequest
  | Call_sendOrderToUtmfy SendOrderParams
  | Fetch_Utmfy UtmfyOrderRequest

datatype response_body =
    Error_body string
  | Create_ok string string string string string number
  | Webhook_ok string string string

record http_response =
  http_status :: nat
  http_body :: response_body

record handler_result =
  response :: http_response
  effects :: "effect list"

section \<open>Payment Provider client: create charge (src/lib/slimpay.ts)\<close>

text \<open>The string itself when it is truthy.\<close>

definition present :: "string option \<Rightarrow> string option" where
  "present v = (case v of None \<Rightarrow> None | Some s \<Rightarrow> if s = [] then None else Some s)"

text \<open>\<open>getHeaders\<close> raises when either credential is falsy; \<open>Inl\<close> is the message.\<close>

definition getHeaders :: "world \<Rightarrow> string + (string \<times> string) list" where
  "getHeaders w =
     (case present (SLIMPAY_PUBLIC_KEY w) of
        None \<Rightarrow> Inl ''SlimPay credentials not configured. Please set SLIMPAY_PUBLIC_KEY and SLIMPAY_SECRET_KEY environment variables.''
      | Some publicKey \<Rightarrow>
          (case present (SLIMPAY_SECRET_KEY w) of
             None \<Rightarrow> Inl ''SlimPay credentials not configured. Please set SLIMPAY_PUBLIC_KEY and SLIMPAY_SECRET_KEY environment variables.''
           | Some secretKey \<Rightarrow>
               Inr [(''Content-Type'', ''application/json''),
                    (''x-public-key'', publicKey),
                    (''x-secret-key'', secretKey)]))"

text \<open>
  \<open>createPixPayment\<close>: everything, \<open>getHeaders()\<close> included, runs inside one \<open>try\<close>,
  whose \<open>catch\<close> returns a failure result. The second component is the HTTP request
  sent, if any.
\<close>

definition createPixPayment :: "world \<Rightarrow> SlimPayPixRequest \<Rightarrow> PixResult \<times> effect list" where
  "createPixPayment w d =
     (case getHeaders w of
        Inl msg \<Rightarrow>
          (\<lparr>pix_success = False, pix_data = None, pix_error = Some msg, pix_errorCode = None\<rparr>, [])
      | Inr headers \<Rightarrow>
          (case slimpay_fetch w headers d of
             SlimPayThrew m \<Rightarrow>
               \<lparr>pix_success = False, pix_data = None,
                pix_error = Some (case m of Some msg \<Rightarrow> msg | None \<Rightarrow> ''Erro de conexao com SlimPay''),
                pix_errorCode = None\<rparr>
           | SlimPayNotOk message code \<Rightarrow>
               \<lparr>pix_success = False, pix_data = None,
                pix_error = Some (or_else message ''Erro ao criar cobranca PIX''),
                pix_errorCode = code\<rparr>
           | SlimPayOk result \<Rightarrow>
               \<lparr>pix_success = True, pix_data = result, pix_error = None, pix_errorCode = None\<rparr>,
           [Fetch_SlimPay headers d]))"

section \<open>Tracking Service client: send order (src/lib/utmfy.ts)\<close>

text \<open>
  \<open>formatUtmfyDate(date)\<close>. The argument is a \<open>Date\<close> object (given by its ISO string;
  the code only passes \<open>new Date()\<close>), a string or absent. \<open>Inl\<close> is the RangeError that
  \<open>toISOString\<close> raises on an invalid date.
\<close>

datatype js_date = DateObject string | DateString string

definition formatUtmfyDate :: "world \<Rightarrow> js_date option \<Rightarrow> string + string option" where
  "formatUtmfyDate w date =
     (case date of
        None \<Rightarrow> Inr None
      | Some (DateObject isoString) \<Rightarrow> Inr (Some (take 19 (replace_T isoString)))
      | Some (DateString s) \<Rightarrow>
          if s = [] then Inr None
          else (case date_iso w s of
                  None \<Rightarrow> Inl ''RangeError: Invalid time value''
                | Some isoString \<Rightarrow> Inr (Some (take 19 (replace_T isoString)))))"

text \<open>The \<open>order\<close> object literal, given the two formatted dates.\<close>

definition utmfy_order :: "SendOrderParams \<Rightarrow> string option \<Rightarrow> string option \<Rightarrow> UtmfyOrderRequest" where
  "utmfy_order params created approved =
     (let utmfyStatus = (if so_status params = ''approved'' then ''paid'' else so_status params)
      in \<lparr>uo_orderId = so_orderId params,
          uo_platform = ''CometaPapelaria'',
          uo_paymentMethod = so_paymentMethod params,
          uo_status = utmfyStatus,
          uo_createdAt = or_else created [],
          uo_approvedDate = approved,
          uo_refundedAt = None,
          uo_customer =
            \<lparr>uc_name = so_name (so_customer params),
             uc_email = so_email (so_customer params),
             uc_phone = so_phone (so_customer params),
             uc_document = so_document (so_customer params),
             uc_country = Some (or_else (so_country (so_customer params)) ''BR''),
             uc_ip = None\<rparr>,
          uo_products =
            map (\<lambda>p. \<lparr>up_id = sop_id p, up_name = sop_name p, up_planId = None,
                       up_planName = None, up_quantity = sop_quantity p,
                       up_priceInCents = sop_priceInCents p\<rparr>)
              (so_products params),
          uo_trackingParameters =
            \<lparr>ut_src = or_null (Option.bind (so_trackingParams params) src),
             ut_sck = or_null (Option.bind (so_trackingParams params) sck),
             ut_utm_source = or_null (Option.bind (so_trackingParams params) utm_source),
             ut_utm_campaign = or_null (Option.bind (so_trackingParams params) utm_campaign),
             ut_utm_medium = or_null (Option.bind (so_trackingParams params) utm_medium),
             ut_utm_content = or_null (Option.bind (so_trackingParams params) utm_content),
             ut_utm_term = or_null (Option.bind (so_trackingParams params) utm_term)\<rparr>,
          uo_commission =
            \<lparr>totalPriceInCents = so_totalPriceInCents (so_commission params),
             gatewayFeeInCents = so_gatewayFeeInCents (so_commission params),
             userCommissionInCents = so_userCommissionInCents (so_commission params),
             currency = Some ''BRL''\<rparr>\<rparr>)"

text \<open>
  The \<open>try\<close> block of \<open>sendOrderToUtmfy\<close>: \<open>Inl\<close> is \<open>String(error)\<close> of an exception
  raised in it, \<open>Inr\<close> the object it returns. The second component is the HTTP request
  sent, if any.
\<close>

definition sendOrderToUtmfy_try ::
  "world \<Rightarrow> SendOrderParams \<Rightarrow> (string + UtmfyResult) \<times> effect list" where
  "sendOrderToUtmfy_try w params =
     (case formatUtmfyDate w (Some (DateObject (now_iso w))) of
        Inl e \<Rightarrow> (Inl e, [])
      | Inr created \<Rightarrow>
          (case (if truthy (so_approvedDate params)
                 then formatUtmfyDate w (map_option DateString (so_approvedDate params))
                 else Inr None) of
             Inl e \<Rightarrow> (Inl e, [])
           | Inr approved \<Rightarrow>
               (let order = utmfy_order params created approved
                in (case utmfy_fetch w order of
                      UtmfyThrew e \<Rightarrow> Inl e
                    | UtmfyResponded ok responseText \<Rightarrow>
                        if \<not> ok
                        then Inr \<lparr>utmfy_success = False, utmfy_error = Some responseText,
                                  utmfy_response = Some responseText\<rparr>
                        else Inr \<lparr>utmfy_success = True, utmfy_error = None,
                                  utmfy_response = Some responseText\<rparr>,
                    [Fetch_Utmfy order]))))"

text \<open>The whole function: the \<open>catch\<close> turns an exception into a failure result.\<close>

definition sendOrderToUtmfy :: "world \<Rightarrow> SendOrderParams \<Rightarrow> UtmfyResult \<times> effect list" where
  "sendOrderToUtmfy w params =
     (case sendOrderToUtmfy_try w params of
        (Inl e, fx) \<Rightarrow>
          (\<lparr>utmfy_success = False, utmfy_error = Some e, utmfy_response = None\<rparr>, fx)
      | (Inr r, fx) \<Rightarrow> (r, fx))"

section \<open>Charge-creation handler (src/unnamed/part_000)\<close>

definition bad_request :: "string \<Rightarrow> handler_result" where
  "bad_request msg =
     \<lparr>response = \<lparr>http_status = 400, http_body = Error_body msg\<rparr>, effects = []\<rparr>"

text \<open>
  Lines 51 to 56: name, email, cpf and phone must all be truthy. The result is the four
  strings, which the rest of the handler reads.
\<close>

definition required_customer ::
  "ReqCustomer option \<Rightarrow> (string \<times> string \<times> string \<times> string) option" where
  "required_customer c =
     do {
       c' \<leftarrow> c;
       name \<leftarrow> present (customer_name c');
       email \<leftarrow> present (customer_email c');
       cpf \<leftarrow> present (customer_cpf c');
       phone \<leftarrow> present (customer_phone c');
       Some (name, email, cpf, phone)
     }"

text \<open>Lines 69 to 71.\<close>

definition productsTotal :: "ReqItem list \<Rightarrow> number" where
  "productsTotal its = foldl (\<lambda>acc item. acc + item_price item * item_quantity item) 0 its"

definition shippingFee_of :: "ReqShipping option \<Rightarrow> number" where
  "shippingFee_of sh =
     (case sh of None \<Rightarrow> 0 | Some s \<Rightarrow> if shipping_price s = 0 then 0 else shipping_price s)"

definition finalAmount :: "ReqItem list \<Rightarrow> ReqShipping option \<Rightarrow> number" where
  "finalAmount its sh = productsTotal its + shippingFee_of sh"

text \<open>Lines 80 to 83.\<close>

definition cepFormatted :: "string \<Rightarrow> string" where
  "cepFormatted cep =
     (let cepNumbers = replace_non_digits cep
      in if length cepNumbers = 8 then take 5 cepNumbers @ ''-'' @ drop 5 cepNumbers
         else cepNumbers)"

text \<open>Lines 122 to 127: \<open>...(v && {key: v})\<close> adds the key when \<open>v\<close> is truthy.\<close>

definition spread_if :: "string \<Rightarrow> string option \<Rightarrow> (string \<times> string) list" where
  "spread_if key v = (case present v of None \<Rightarrow> [] | Some s \<Rightarrow> [(key, s)])"

definition charge_metadata :: "TrackingParams option \<Rightarrow> (string \<times> string) list" where
  "charge_metadata tp =
     (''source'', ''CometaPapelaria'') #
     spread_if ''utm_source'' (Option.bind tp utm_source) @
     spread_if ''utm_medium'' (Option.bind tp utm_medium) @
     spread_if ''utm_campaign'' (Option.bind tp utm_campaign)"

text \<open>Lines 94 to 129: the argument of \<open>createPixPayment\<close>.\<close>

definition pix_request ::
  "world \<Rightarrow> CreatePixRequest \<Rightarrow> string \<Rightarrow> string \<Rightarrow> string \<Rightarrow> string \<Rightarrow> ReqItem list \<Rightarrow>
   SlimPayPixRequest" where
  "pix_request w body name email cpf phone its =
     (let cpfClean = replace_non_digits cpf;
          phoneClean = replace_non_digits phone
      in \<lparr>pix_identifier = generated_orderId w,
          amount = finalAmount its (shipping body),
          shippingFee = Some (shippingFee_of (shipping body)),
          extraFee = None,
          discount = Some 0,
          client =
            \<lparr>client_name = name,
             client_email = email,
             client_phone = phoneClean,
             client_document = cpfClean,
             client_cpf = Some cpfClean,
             client_cnpj = None,
             client_address = Some
               \<lparr>sp_country = ''BR'',
                sp_zipCode = cepFormatted (address_cep (address body)),
                sp_state = address_state (address body),
                sp_city = address_city (address body),
                sp_neighborhood = address_neighborhood (address body),
                sp_street = address_street (address body),
                sp_number = address_number (address body),
                sp_complement = Some (or_else (address_complement (address body)) [])\<rparr>\<rparr>,
          products = Some (map (\<lambda>item. \<lparr>product_id = item_id item, product_name = item_name item,
                                         product_price = item_price item,
                                         product_quantity = item_quantity item\<rparr>) its),
          splits = None,
          dueDate = None,
          metadata = Some (charge_metadata (trackingParams body)),
          callbackUrl = Some (or_else (NEXT_PUBLIC_APP_URL w) [] @ ''/api/webhook/slimpay'')\<rparr>)"

text \<open>Lines 142 to 166: the argument of \<open>sendOrderToUtmfy\<close>; \<open>{}\<close> has no field set.\<close>

definition no_tracking_params :: TrackingParams where
  "no_tracking_params =
     \<lparr>src = None, sck = None, utm_source = None, utm_medium = None, utm_campaign = None,
      utm_content = None, utm_term = None\<rparr>"

definition pending_report ::
  "world \<Rightarrow> CreatePixRequest \<Rightarrow> string \<Rightarrow> string \<Rightarrow> string \<Rightarrow> string \<Rightarrow> ReqItem list \<Rightarrow>
   SendOrderParams" where
  "pending_report w body name email cpf phone its =
     (let cpfClean = replace_non_digits cpf;
          phoneClean = replace_non_digits phone;
          totalInCents = Math_round (finalAmount its (shipping body) * 100)
      in \<lparr>so_orderId = generated_orderId w,
          so_status = ''waiting_payment'',
          so_paymentMethod = ''pix'',
          so_customer =
            \<lparr>so_name = name, so_email = email, so_phone = Some phoneClean,
             so_document = Some cpfClean, so_country = None\<rparr>,
          so_products =
            map (\<lambda>item. \<lparr>sop_id = item_id item, sop_name = item_name item,
                          sop_quantity = item_quantity item,
                          sop_priceInCents = Math_round (item_price item * 100)\<rparr>) its,
          so_commission =
            \<lparr>so_totalPriceInCents = totalInCents,
             so_gatewayFeeInCents = 0,
             so_userCommissionInCents = totalInCents\<rparr>,
          so_trackingParams =
            Some (case trackingParams body of None \<Rightarrow> no_tracking_params | Some tp \<Rightarrow> tp),
          so_approvedDate = None\<rparr>)"

text \<open>
  The handler. \<open>request_json\<close> is the parsed body, \<open>None\<close> when \<open>request.json()\<close>
  raises or yields \<open>null\<close>, which the outer \<open>catch\<close> turns into the 500 response. The inner
  \<open>try\<close>/\<open>catch\<close> around \<open>sendOrderToUtmfy\<close> discards its result.
\<close>

definition POST_create :: "world \<Rightarrow> CreatePixRequest option \<Rightarrow> handler_result" where
  "POST_create w request_json =
     (case request_json of
        None \<Rightarrow>
          \<lparr>response = \<lparr>http_status = 500,
                       http_body = Error_body ''Erro interno ao processar pagamento''\<rparr>,
           effects = []\<rparr>
      | Some body \<Rightarrow>
          (case required_customer (customer body) of
             None \<Rightarrow> bad_request ''Dados do cliente incompletos''
           | Some (name, email, cpf, phone) \<Rightarrow>
               (case items body of
                  None \<Rightarrow> bad_request ''Carrinho vazio''
                | Some its \<Rightarrow>
                    if length its = 0 then bad_request ''Carrinho vazio''
                    else if length (replace_non_digits cpf) \<noteq> 11
                    then bad_request ''CPF invalido. Deve conter 11 digitos.''
                    else
                      (let req = pix_request w body name email cpf phone its;
                           pixResult = createPixPayment w req
                       in (case (if pix_success (fst pixResult) then pix_data (fst pixResult)
                                 else None) of
                             None \<Rightarrow>
                               \<lparr>response = \<lparr>http_status = 400,
                                   http_body = Error_body
                                     (or_else (pix_error (fst pixResult)) ''Erro ao gerar PIX'')\<rparr>,
                                effects = Call_createPixPayment req # snd pixResult\<rparr>
                           | Some d \<Rightarrow>
                               (let params = pending_report w body name email cpf phone its;
                                    sent = sendOrderToUtmfy w params
                                in \<lparr>response = \<lparr>http_status = 200,
                                       http_body = Create_ok (transactionId d)
                                         (generated_orderId w) (pix_qrCode (pix d))
                                         (pix_expiresAt (pix d)) (order_id (order d))
                                         (order_amount (order d))\<rparr>,
                                    effects = Call_createPixPayment req # snd pixResult @
                                      Call_sendOrderToUtmfy params # snd sent\<rparr>))))))"

section \<open>Webhook handler (src/unnamed/part_001)\<close>

text \<open>\<open>trackProps || {}\<close>, read through the seven fields \<open>sendOrderToUtmfy\<close> looks at.\<close>

definition track_params_of :: "(string \<rightharpoonup> string) option \<Rightarrow> TrackingParams" where
  "track_params_of props =
     (case props of
        None \<Rightarrow> no_tracking_params
      | Some m \<Rightarrow>
          \<lparr>src = m ''src'', sck = m ''sck'', utm_source = m ''utm_source'',
           utm_medium = m ''utm_medium'', utm_campaign = m ''utm_campaign'',
           utm_content = m ''utm_content'', utm_term = m ''utm_term''\<rparr>)"

text \<open>
  The argument of \<open>sendOrderToUtmfy\<close> in the three reporting branches (lines 34 to 57,
  68 to 90 and 101 to 123): the three object literals differ only in the status and in
  the approval date, which only the paid branch passes.
\<close>

definition webhook_report ::
  "world \<Rightarrow> SlimPayWebhookPayload \<Rightarrow> string \<Rightarrow> string option \<Rightarrow> SendOrderParams" where
  "webhook_report w payload status approved =
     (let transaction = wh_transaction payload;
          cl = wh_client payload;
          totalInCents = Math_round (tx_amount transaction * 100)
      in \<lparr>so_orderId = tx_identifier transaction,
          so_status = status,
          so_paymentMethod = toLowerCase w (tx_paymentMethod transaction),
          so_customer =
            \<lparr>so_name = wc_name cl, so_email = wc_email cl, so_phone = Some (wc_phone cl),
             so_document = Some (or_else (wc_cpf cl) (or_else (wc_cnpj cl) [])),
             so_country = None\<rparr>,
          so_products =
            map (\<lambda>item. \<lparr>sop_id = or_else (wp_externalId (oi_product item)) (wp_id (oi_product item)),
                          sop_name = wp_name (oi_product item),
                          sop_quantity = 1,
                          sop_priceInCents = Math_round (oi_price item * 100)\<rparr>)
              (orderItems payload),
          so_commission =
            \<lparr>so_totalPriceInCents = totalInCents,
             so_gatewayFeeInCents = 0,
             so_userCommissionInCents = totalInCents\<rparr>,
          so_trackingParams = Some (track_params_of (trackProps payload)),
          so_approvedDate = approved\<rparr>)"

text \<open>One reporting branch: the call, then the HTTP request the client sent for it.\<close>

definition relay :: "world \<Rightarrow> SendOrderParams \<Rightarrow> effect list" where
  "relay w params = Call_sendOrderToUtmfy params # snd (sendOrderToUtmfy w params)"

text \<open>
  The handler. A body that does not parse (or is \<open>null\<close>) goes to the outer
  \<open>catch\<close>, which answers 200 with an error.
\<close>

definition POST_webhook :: "world \<Rightarrow> SlimPayWebhookPayload option \<Rightarrow> handler_result" where
  "POST_webhook w request_json =
     (case request_json of
        None \<Rightarrow>
          \<lparr>response = \<lparr>http_status = 200, http_body = Error_body ''Error processing webhook''\<rparr>,
           effects = []\<rparr>
      | Some payload \<Rightarrow>
          (let expectedToken = SLIMPAY_WEBHOOK_TOKEN w
           in if truthy expectedToken \<and> \<not> verifyWebhookToken (token payload) expectedToken
              then \<lparr>response = \<lparr>http_status = 401, http_body = Error_body ''Invalid token''\<rparr>,
                    effects = []\<rparr>
              else
                (let transaction = wh_transaction payload;
                     mappedStatus = mapSlimPayStatus (tx_status transaction);
                     ev = event payload;
                     fx =
                       (if ev = ''TRANSACTION_PAID''
                        then relay w (webhook_report w payload ''approved'' (tx_payedAt transaction))
                        else if ev = ''TRANSACTION_CANCELED''
                        then relay w (webhook_report w payload ''refused'' None)
                        else if ev = ''TRANSACTION_REFUNDED''
                        then relay w (webhook_report w payload ''refunded'' None)
                        else if ev = ''TRANSACTION_CREATED'' then []
                        else [])
                 in \<lparr>response = \<lparr>http_status = 200,
                        http_body = Webhook_ok ev (tx_identifier transaction) mappedStatus\<rparr>,
                     effects = fx\<rparr>)))"

section \<open>A concrete checkout and a concrete webhook\<close>

text \<open>
  The end-to-end scenario of the specification: one item of price 10.00 and quantity 2,
  a shipping option of 5.00, the document \<open>123.456.789-01\<close>, the postal code
  \<open>12345678\<close>, and a caller-supplied total of 1. All seven attribution parameters are
  set. The provider accepts the charge; the Tracking Service answers with an error status.
\<close>

definition example_charge :: SlimPayPixResponse where
  "example_charge =
     \<lparr>transactionId = ''tx-1'', charge_status = ''OK'', fee = 0,
      order = \<lparr>order_id = ''ord-1'', order_amount = 25, order_currency = ''BRL''\<rparr>,
      pix = \<lparr>pix_qrCode = ''000201'', pix_expiresAt = ''2026-01-01T00:30:00.000Z''\<rparr>,
      details = None, errorDescription = None\<rparr>"

definition example_world :: world where
  "example_world =
     \<lparr>SLIMPAY_PUBLIC_KEY = Some ''pk'', SLIMPAY_SECRET_KEY = Some ''sk'',
      SLIMPAY_WEBHOOK_TOKEN = Some ''secret'', NEXT_PUBLIC_APP_URL = Some ''https://shop'',
      generated_orderId = ''ORD-1'', now_iso = ''2026-01-01T00:00:00.000Z'',
      date_iso = (\<lambda>s. Some s),
      slimpay_fetch = (\<lambda>headers d. SlimPayOk (Some example_charge)),
      utmfy_fetch = (\<lambda>order. UtmfyResponded False ''rate limited''),
      toLowerCase = ascii_toLowerCase\<rparr>"

definition example_items :: "ReqItem list" where
  "example_items = [\<lparr>item_id = ''p1'', item_name = ''Caderno'', item_price = 10, item_quantity = 2\<rparr>]"

definition example_body :: CreatePixRequest where
  "example_body =
     \<lparr>customer = Some \<lparr>customer_name = Some ''Maria'', customer_email = Some ''m@x.br'',
                        customer_cpf = Some ''123.456.789-01'',
                        customer_phone = Some ''(11) 99999-9999''\<rparr>,
      address = \<lparr>address_cep = ''12345678'', address_street = ''Rua A'', address_number = ''1'',
                 address_complement = None, address_neighborhood = ''Centro'',
                 address_city = ''Sao Paulo'', address_state = ''SP''\<rparr>,
      items = Some example_items,
      total = 1,
      shipping = Some \<lparr>shipping_id = ''s1'', shipping_name = ''PAC'', shipping_price = 5,
                       shipping_days = ''7''\<rparr>,
      trackingParams = Some \<lparr>src = Some ''fb'', sck = Some ''k1'', utm_source = Some ''news'',
                             utm_medium = Some ''email'', utm_campaign = Some ''jan'',
                             utm_content = Some ''banner'', utm_term = Some ''caderno''\<rparr>\<rparr>"

text \<open>The argument with which the handler calls \<open>createPixPayment\<close> on this checkout.\<close>

definition example_request :: SlimPayPixRequest where
  "example_request =
     pix_request example_world example_body ''Maria'' ''m@x.br'' ''123.456.789-01''
       ''(11) 99999-9999'' example_items"

text \<open>The same checkout without its customer email.\<close>

definition incomplete_body :: CreatePixRequest where
  "incomplete_body =
     example_body\<lparr>customer := Some \<lparr>customer_name = Some ''Maria'', customer_email = None,
                                     customer_cpf = Some ''123.456.789-01'',
                                     customer_phone = Some ''(11) 99999-9999''\<rparr>\<rparr>"

text \<open>The same checkout with a document of ten digits.\<close>

definition short_cpf_body :: CreatePixRequest where
  "short_cpf_body =
     example_body\<lparr>customer := Some \<lparr>customer_name = Some ''Maria'', customer_email = Some ''m@x.br'',
                                     customer_cpf = Some ''123.456.789-0'',
                                     customer_phone = Some ''(11) 99999-9999''\<rparr>\<rparr>"

text \<open>A paid-transaction webhook for that order, with the right token and with a wrong one.\<close>

definition example_payload :: SlimPayWebhookPayload where
  "example_payload =
     \<lparr>event = ''TRANSACTION_PAID'', token = Some ''secret'', offerCode = None,
      wh_client = \<lparr>wc_id = ''c1'', wc_name = ''Maria'', wc_email = ''m@x.br'',
                   wc_phone = ''11999999999'', wc_cpf = Some ''12345678901'', wc_cnpj = None,
                   wc_address = None\<rparr>,
      wh_transaction =
        \<lparr>tx_id = ''tx-1'', tx_identifier = ''ORD-1'', tx_status = ''COMPLETED'',
         tx_paymentMethod = ''PIX'', tx_originalCurrency = ''BRL'', tx_originalAmount = 25,
         tx_currency = ''BRL'', tx_exchangeRate = None, tx_installments = 1, tx_amount = 25,
         tx_createdAt = ''2026-01-01T00:00:00.000Z'',
         tx_payedAt = Some ''2026-01-01T00:10:00.000Z'', tx_pixInformation = None\<rparr>,
      orderItems = [\<lparr>oi_id = ''i1'', oi_price = 20,
                     oi_product = \<lparr>wp_id = ''p1'', wp_name = ''Caderno'', wp_externalId = None\<rparr>\<rparr>],
      trackProps = None\<rparr>"

definition forged_payload :: SlimPayWebhookPayload where
  "forged_payload = example_payload\<lparr>token := Some ''guess''\<rparr>"

text \<open>
  What the handlers pass to \<open>sendOrderToUtmfy\<close> on these two inputs, and the reports
  the client then posts.
\<close>

definition example_report :: SendOrderParams where
  "example_report =
     pending_report example_world example_body ''Maria'' ''m@x.br'' ''123.456.789-01''
       ''(11) 99999-9999'' example_items"

definition example_order :: UtmfyOrderRequest where
  "example_order = utmfy_order example_report (Some ''2026-01-01 00:00:00'') None"

definition paid_report :: SendOrderParams where
  "paid_report =
     webhook_report example_world example_payload ''approved''
       (Some ''2026-01-01T00:10:00.000Z'')"

definition paid_order :: UtmfyOrderRequest where
  "paid_order =
     utmfy_order paid_report (Some ''2026-01-01 00:00:00'') (Some ''2026-01-01 00:10:00'')"

section \<open>Facts about the clients and the handlers\<close>

lemma replace_non_digits_filter: "replace_non_digits s = filter isDigit s"
  by (induction s) simp_all

lemma foldl_add_sum_list:
  "foldl (\<lambda>acc x. acc + g x) (a::real) xs = a + sum_list (map g xs)"
  by (induction xs arbitrary: a) (simp_all add: algebra_simps)

lemma productsTotal_sum_list:
  "productsTotal its = (\<Sum>item\<leftarrow>its. item_price item * item_quantity item)"
  unfolding productsTotal_def by (simp add: foldl_add_sum_list)

lemma shippingFee_of_eq:
  "shippingFee_of sh = (case sh of None \<Rightarrow> 0 | Some s \<Rightarrow> shipping_price s)"
  by (simp add: shippingFee_of_def split: option.split)

lemma present_eq_Some: "present v = Some s \<longleftrightarrow> v = Some s \<and> s \<noteq> []"
  by (cases v) (auto simp add: present_def)

lemma present_eq_None: "present v = None \<longleftrightarrow> \<not> truthy v"
  by (cases v) (simp_all add: present_def truthy_def)

lemma required_customer_eq_Some:
  "required_customer c = Some (n, e, d, p) \<longleftrightarrow>
     (\<exists>c'. c = Some c' \<and> present (customer_name c') = Some n \<and>
        present (customer_email c') = Some e \<and> present (customer_cpf c') = Some d \<and>
        present (customer_phone c') = Some p)"
  by (cases c) (simp_all add: required_customer_def Option.bind_eq_Some_conv)

lemma required_customer_eq_None:
  "required_customer c = None \<longleftrightarrow>
     \<not> truthy (Option.bind c customer_name) \<or> \<not> truthy (Option.bind c customer_email) \<or>
     \<not> truthy (Option.bind c customer_cpf) \<or> \<not> truthy (Option.bind c customer_phone)"
proof (cases c)
  case None
  then show ?thesis by (simp add: required_customer_def truthy_def)
next
  case (Some c')
  show ?thesis
    unfolding Some
    by (cases "present (customer_name c')"; cases "present (customer_email c')";
        cases "present (customer_cpf c')"; cases "present (customer_phone c')")
       (simp_all add: required_customer_def flip: present_eq_None)
qed

lemma createPixPayment_snd:
  "snd (createPixPayment w d) = [] \<or> (\<exists>h. snd (createPixPayment w d) = [Fetch_SlimPay h d])"
  by (cases "getHeaders w") (simp_all add: createPixPayment_def)

lemma sendOrderToUtmfy_try_snd:
  "snd (sendOrderToUtmfy_try w ps) = [] \<or>
   (\<exists>created approved. snd (sendOrderToUtmfy_try w ps) =
      [Fetch_Utmfy (utmfy_order ps created approved)])"
proof (cases "formatUtmfyDate w (Some (DateObject (now_iso w)))")
  case (Inl e)
  then show ?thesis by (simp add: sendOrderToUtmfy_try_def)
next
  case created: (Inr created)
  show ?thesis
  proof (cases "if truthy (so_approvedDate ps)
                 then formatUtmfyDate w (map_option DateString (so_approvedDate ps))
                 else Inr None")
    case (Inl e)
    with created show ?thesis by (simp add: sendOrderToUtmfy_try_def)
  next
    case (Inr approved)
    with created have "snd (sendOrderToUtmfy_try w ps) =
       [Fetch_Utmfy (utmfy_order ps created approved)]"
      by (simp add: sendOrderToUtmfy_try_def Let_def)
    then show ?thesis by (intro disjI2 exI)
  qed
qed

lemma sendOrderToUtmfy_snd_eq: "snd (sendOrderToUtmfy w ps) = snd (sendOrderToUtmfy_try w ps)"
  by (cases "sendOrderToUtmfy_try w ps"; cases "fst (sendOrderToUtmfy_try w ps)")
     (simp_all add: sendOrderToUtmfy_def)

lemma sendOrderToUtmfy_snd:
  "snd (sendOrderToUtmfy w ps) = [] \<or>
   (\<exists>created approved. snd (sendOrderToUtmfy w ps) =
      [Fetch_Utmfy (utmfy_order ps created approved)])"
  unfolding sendOrderToUtmfy_snd_eq by (rule sendOrderToUtmfy_try_snd)

lemma POST_create_effects_valid:
  assumes "required_customer (customer body) = Some (n, e, c, p)"
    and "items body = Some its" and "its \<noteq> []"
    and "length (replace_non_digits c) = 11"
  shows "effects (POST_create w (Some body)) =
     Call_createPixPayment (pix_request w body n e c p its) #
     snd (createPixPayment w (pix_request w body n e c p its)) @
     (case (if pix_success (fst (createPixPayment w (pix_request w body n e c p its)))
            then pix_data (fst (createPixPayment w (pix_request w body n e c p its)))
            else None) of
        None \<Rightarrow> []
      | Some d \<Rightarrow> Call_sendOrderToUtmfy (pending_report w body n e c p its) #
          snd (sendOrderToUtmfy w (pending_report w body n e c p its)))"
  using assms by (simp add: POST_create_def Let_def split: option.split)

lemma POST_create_response_valid:
  assumes "required_customer (customer body) = Some (n, e, c, p)"
    and "items body = Some its" and "its \<noteq> []"
    and "length (replace_non_digits c) = 11"
  shows "response (POST_create w (Some body)) =
     (case (if pix_success (fst (createPixPayment w (pix_request w body n e c p its)))
            then pix_data (fst (createPixPayment w (pix_request w body n e c p its)))
            else None) of
        None \<Rightarrow> \<lparr>http_status = 400, http_body = Error_body
           (or_else (pix_error (fst (createPixPayment w (pix_request w body n e c p its))))
              ''Erro ao gerar PIX'')\<rparr>
      | Some d \<Rightarrow> \<lparr>http_status = 200,
           http_body = Create_ok (transactionId d) (generated_orderId w) (pix_qrCode (pix d))
             (pix_expiresAt (pix d)) (order_id (order d)) (order_amount (order d))\<rparr>)"
  using assms by (simp add: POST_create_def Let_def split: option.split)

lemma POST_create_invalid:
  assumes "required_customer (customer body) = None \<or> items body = None \<or> items body = Some [] \<or>
     (\<exists>n e c p. required_customer (customer body) = Some (n, e, c, p) \<and>
        length (replace_non_digits c) \<noteq> 11)"
  shows "http_status (response (POST_create w (Some body))) = 400 \<and>
         effects (POST_create w (Some body)) = []"
proof (cases "required_customer (customer body)")
  case None
  then show ?thesis by (simp add: POST_create_def bad_request_def)
next
  case (Some t)
  obtain n e c p where t: "t = (n, e, c, p)" by (cases t)
  show ?thesis
  proof (cases "items body")
    case None
    with Some t show ?thesis by (simp add: POST_create_def bad_request_def)
  next
    case its: (Some its)
    show ?thesis
    proof (cases "its = []")
      case True
      with Some t its show ?thesis by (simp add: POST_create_def bad_request_def)
    next
      case False
      with assms Some t its have "length (replace_non_digits c) \<noteq> 11" by simp
      with Some t its False show ?thesis by (simp add: POST_create_def bad_request_def)
    qed
  qed
qed


lemma POST_create_valid_of_effect:
  assumes "x \<in> set (effects (POST_create w rq))"
  shows "\<exists>body n e c p its. rq = Some body \<and>
     required_customer (customer body) = Some (n, e, c, p) \<and> items body = Some its \<and>
     its \<noteq> [] \<and> length (replace_non_digits c) = 11"
proof (cases rq)
  case None
  with assms show ?thesis by (simp add: POST_create_def)
next
  case (Some body)
  show ?thesis
  proof (rule ccontr)
    assume neg: "\<not> ?thesis"
    have "required_customer (customer body) = None \<or> items body = None \<or> items body = Some [] \<or>
     (\<exists>n e c p. required_customer (customer body) = Some (n, e, c, p) \<and>
        length (replace_non_digits c) \<noteq> 11)"
    proof (cases "required_customer (customer body)")
      case None
      then show ?thesis by simp
    next
      case rc: (Some t)
      obtain n e c p where t: "t = (n, e, c, p)" by (cases t)
      show ?thesis
      proof (cases "items body")
        case None
        then show ?thesis by simp
      next
        case its: (Some its)
        with neg Some rc t have "its = [] \<or> length (replace_non_digits c) \<noteq> 11" by simp
        with its rc t show ?thesis by auto
      qed
    qed
    from POST_create_invalid [OF this] assms Some show False by simp
  qed
qed

lemma POST_create_charge_of_effect:
  assumes "x \<in> set (effects (POST_create w (Some body)))"
    and "x = Call_createPixPayment r \<or> x = Fetch_SlimPay h r"
  shows "\<exists>n e c p its.
     required_customer (customer body) = Some (n, e, c, p) \<and> items body = Some its \<and>
     its \<noteq> [] \<and> length (replace_non_digits c) = 11 \<and>
     r = pix_request w body n e c p its"
proof -
  from POST_create_valid_of_effect [OF assms(1)]
  obtain n e c p its where v: "required_customer (customer body) = Some (n, e, c, p)"
    "items body = Some its" "its \<noteq> []" "length (replace_non_digits c) = 11"
    by auto
  note fx = POST_create_effects_valid [OF v, of w]
  have "r = pix_request w body n e c p its"
    using assms createPixPayment_snd [of w "pix_request w body n e c p its"]
      sendOrderToUtmfy_snd [of w "pending_report w body n e c p its"]
    unfolding fx by (auto split: option.splits if_splits)
  with v show ?thesis by auto
qed

lemma POST_create_report_of_effect:
  assumes "x \<in> set (effects (POST_create w (Some body)))"
    and "x = Call_sendOrderToUtmfy ps \<or> x = Fetch_Utmfy ord"
  shows "\<exists>n e c p its created approved.
     required_customer (customer body) = Some (n, e, c, p) \<and> items body = Some its \<and>
     (x = Call_sendOrderToUtmfy ps \<longrightarrow> ps = pending_report w body n e c p its) \<and>
     (x = Fetch_Utmfy ord \<longrightarrow>
        ord = utmfy_order (pending_report w body n e c p its) created approved)"
proof -
  from POST_create_valid_of_effect [OF assms(1)]
  obtain n e c p its where v: "required_customer (customer body) = Some (n, e, c, p)"
    "items body = Some its" "its \<noteq> []" "length (replace_non_digits c) = 11"
    by auto
  note fx = POST_create_effects_valid [OF v, of w]
  have "\<exists>created approved.
     (x = Call_sendOrderToUtmfy ps \<longrightarrow> ps = pending_report w body n e c p its) \<and>
     (x = Fetch_Utmfy ord \<longrightarrow>
        ord = utmfy_order (pending_report w body n e c p its) created approved)"
    using assms createPixPayment_snd [of w "pix_request w body n e c p its"]
      sendOrderToUtmfy_snd [of w "pending_report w body n e c p its"]
    unfolding fx by (auto split: option.splits if_splits) blast+
  with v show ?thesis by blast
qed


lemmas create_defs = POST_create_def required_customer_def present_def bad_request_def
  pix_request_def pending_report_def createPixPayment_def getHeaders_def sendOrderToUtmfy_def
  sendOrderToUtmfy_try_def formatUtmfyDate_def utmfy_order_def finalAmount_def productsTotal_def
  shippingFee_of_def cepFormatted_def charge_metadata_def spread_if_def isDigit_def
  or_else_def or_null_def truthy_def Let_def

lemmas example_defs = example_world_def example_body_def example_items_def example_request_def
  example_charge_def

lemmas webhook_defs = POST_webhook_def verifyWebhookToken_def relay_def webhook_report_def
  track_params_of_def no_tracking_params_def ascii_toLowerCase_def lower_char_def
  mapSlimPayStatus_def sendOrderToUtmfy_def sendOrderToUtmfy_try_def formatUtmfyDate_def
  utmfy_order_def or_else_def or_null_def truthy_def Let_def

lemmas example_report_defs = example_report_def example_order_def paid_report_def
  paid_order_def example_payload_def

lemma utmfy_order_commission:
  "uo_commission (utmfy_order ps c a) =
     \<lparr>totalPriceInCents = so_totalPriceInCents (so_commission ps),
      gatewayFeeInCents = so_gatewayFeeInCents (so_commission ps),
      userCommissionInCents = so_userCommissionInCents (so_commission ps),
      currency = Some ''BRL''\<rparr>"
  by (simp add: utmfy_order_def Let_def)

lemma relay_effect:
  assumes "x \<in> set (relay w ps)"
  shows "x = Call_sendOrderToUtmfy ps \<or> (\<exists>c a. x = Fetch_Utmfy (utmfy_order ps c a))"
  using assms sendOrderToUtmfy_snd [of w ps] by (auto simp add: relay_def)

lemma POST_webhook_effects:
  "effects (POST_webhook w (Some payload)) = [] \<or>
   (\<exists>status approved.
      effects (POST_webhook w (Some payload)) = relay w (webhook_report w payload status approved))"
proof (cases "truthy (SLIMPAY_WEBHOOK_TOKEN w) \<and>
    \<not> verifyWebhookToken (token payload) (SLIMPAY_WEBHOOK_TOKEN w)")
  case True
  then show ?thesis by (simp add: POST_webhook_def Let_def cong: conj_cong)
next
  case ok: False
  show ?thesis
  proof (cases "event payload = ''TRANSACTION_PAID''")
    case True
    with ok have "effects (POST_webhook w (Some payload)) =
       relay w (webhook_report w payload ''approved'' (tx_payedAt (wh_transaction payload)))"
      by (simp add: POST_webhook_def Let_def cong: conj_cong)
    then show ?thesis by (intro disjI2 exI)
  next
    case np: False
    show ?thesis
    proof (cases "event payload = ''TRANSACTION_CANCELED''")
      case True
      with ok have "effects (POST_webhook w (Some payload)) =
         relay w (webhook_report w payload ''refused'' None)"
        by (simp add: POST_webhook_def Let_def cong: conj_cong)
      then show ?thesis by (intro disjI2 exI)
    next
      case nc: False
      show ?thesis
      proof (cases "event payload = ''TRANSACTION_REFUNDED''")
        case True
        with ok have "effects (POST_webhook w (Some payload)) =
           relay w (webhook_report w payload ''refunded'' None)"
          by (simp add: POST_webhook_def Let_def cong: conj_cong)
        then show ?thesis by (intro disjI2 exI)
      next
        case False
        with ok np nc have "effects (POST_webhook w (Some payload)) = []"
          by (simp add: POST_webhook_def Let_def cong: conj_cong)
        then show ?thesis by (rule disjI1)
      qed
    qed
  qed
qed

lemma POST_webhook_effects_by_event:
  assumes "\<not> (truthy (SLIMPAY_WEBHOOK_TOKEN w) \<and>
    \<not> verifyWebhookToken (token payload) (SLIMPAY_WEBHOOK_TOKEN w))"
  shows "effects (POST_webhook w (Some payload)) =
     (if event payload = ''TRANSACTION_PAID''
      then relay w (webhook_report w payload ''approved'' (tx_payedAt (wh_transaction payload)))
      else if event payload = ''TRANSACTION_CANCELED''
      then relay w (webhook_report w payload ''refused'' None)
      else if event payload = ''TRANSACTION_REFUNDED''
      then relay w (webhook_report w payload ''refunded'' None)
      else [])"
  using assms by (simp add: POST_webhook_def Let_def cong: conj_cong)

lemma POST_webhook_report_of_effect:
  assumes "x \<in> set (effects (POST_webhook w (Some payload)))"
  shows "\<exists>status approved. x = Call_sendOrderToUtmfy (webhook_report w payload status approved) \<or>
     (\<exists>c a. x = Fetch_Utmfy (utmfy_order (webhook_report w payload status approved) c a))"
proof -
  from POST_webhook_effects [of w payload] assms
  obtain status approved where "x \<in> set (relay w (webhook_report w payload status approved))"
    by auto
  from relay_effect [OF this] show ?thesis by blast
qed

lemma getHeaders_tracking_irrelevant:
  "getHeaders (w\<lparr>utmfy_fetch := u, now_iso := nw, date_iso := dt\<rparr>) = getHeaders w"
  by (simp add: getHeaders_def cong: option.case_cong)

lemma createPixPayment_tracking_irrelevant:
  "createPixPayment (w\<lparr>utmfy_fetch := u, now_iso := nw, date_iso := dt\<rparr>) d = createPixPayment w d"
  by (simp add: createPixPayment_def getHeaders_tracking_irrelevant cong: sum.case_cong)

lemma pix_request_tracking_irrelevant:
  "pix_request (w\<lparr>utmfy_fetch := u, now_iso := nw, date_iso := dt\<rparr>) = pix_request w"
  by (simp add: pix_request_def fun_eq_iff)

lemma POST_create_response_tracking_irrelevant:
  "response (POST_create (w\<lparr>utmfy_fetch := u, now_iso := nw, date_iso := dt\<rparr>) rq) =
   response (POST_create w rq)"
proof (cases rq)
  case None
  then show ?thesis by (simp add: POST_create_def)
next
  case (Some body)
  show ?thesis
  proof (cases "required_customer (customer body)")
    case None
    with Some show ?thesis by (simp add: POST_create_def)
  next
    case rc: (Some t)
    obtain n e c p where t: "t = (n, e, c, p)" by (cases t)
    show ?thesis
    proof (cases "items body")
      case None
      with Some rc t show ?thesis by (simp add: POST_create_def)
    next
      case its: (Some its)
      show ?thesis
      proof (cases "its \<noteq> [] \<and> length (replace_non_digits c) = 11")
        case True
        with rc t its have v: "required_customer (customer body) = Some (n, e, c, p)"
          "items body = Some its" "its \<noteq> []" "length (replace_non_digits c) = 11"
          by simp_all
        show ?thesis
          unfolding Some POST_create_response_valid [OF v]
          by (simp add: createPixPayment_tracking_irrelevant pix_request_tracking_irrelevant
              cong: option.case_cong if_cong)
      next
        case False
        with Some rc t its show ?thesis by (auto simp add: POST_create_def)
      qed
    qed
  qed
qed

lemma charge_metadata_map_of:
  "distinct (map fst (charge_metadata tp)) \<and>
   map_of (charge_metadata tp) k =
     (if k = ''source'' then Some ''CometaPapelaria''
      else if k = ''utm_source'' then present (Option.bind tp utm_source)
      else if k = ''utm_medium'' then present (Option.bind tp utm_medium)
      else if k = ''utm_campaign'' then present (Option.bind tp utm_campaign)
      else None)"
  by (cases "present (Option.bind tp utm_source)"; cases "present (Option.bind tp utm_medium)";
      cases "present (Option.bind tp utm_campaign)")
     (simp_all add: charge_metadata_def spread_if_def)

lemma mapStatusToUtmfy_cases:
  "mapStatusToUtmfy ''waiting_payment'' = ''waiting_payment'' \<and>
   mapStatusToUtmfy ''pending'' = ''waiting_payment'' \<and>
   mapStatusToUtmfy ''approved'' = ''paid'' \<and>
   mapStatusToUtmfy ''paid'' = ''paid'' \<and>
   mapStatusToUtmfy ''refused'' = ''refused'' \<and>
   mapStatusToUtmfy ''cancelled'' = ''refused'' \<and>
   mapStatusToUtmfy ''refunded'' = ''refunded'' \<and>
   mapStatusToUtmfy ''chargeback'' = ''chargedback'' \<and>
   mapStatusToUtmfy s \<in>
     {''waiting_payment'', ''paid'', ''refused'', ''refunded'', ''chargedback''}"
  by (simp add: mapStatusToUtmfy_def)

lemma utmfy_order_status:
  "uo_status (utmfy_order ps c a) = (if so_status ps = ''approved'' then ''paid'' else so_status ps)"
  by (simp add: utmfy_order_def Let_def)


section \<open>Charge amount\<close>

text \<open>
  C1. Whenever the charge-creation handler, on a request with a non-empty item list, calls
  the Payment Provider's create-charge operation (and whenever the client then sends the
  HTTP request), the amount passed is the sum over the items of price times quantity plus
  the shipping fee, the fee being 0 when no shipping option is given. The handler's whole
  result is unchanged when the caller-supplied \<open>total\<close> is replaced by any other value.
\<close>

theorem charge_amount_recomputed:
  assumes "items body = Some its" and "its \<noteq> []"
    and "x \<in> set (effects (POST_create w (Some body)))"
    and "x = Call_createPixPayment r \<or> x = Fetch_SlimPay h r"
  shows "amount r = (\<Sum>item\<leftarrow>its. item_price item * item_quantity item) +
           (case shipping body of None \<Rightarrow> 0 | Some s \<Rightarrow> shipping_price s) \<and>
         POST_create w (Some (body\<lparr>total := t\<rparr>)) = POST_create w (Some body)"
proof
  from POST_create_charge_of_effect [OF assms(3,4)] assms(1)
  obtain n e c p where "r = pix_request w body n e c p its" by auto
  then show "amount r = (\<Sum>item\<leftarrow>its. item_price item * item_quantity item) +
           (case shipping body of None \<Rightarrow> 0 | Some s \<Rightarrow> shipping_price s)"
    by (simp add: pix_request_def Let_def finalAmount_def productsTotal_sum_list shippingFee_of_eq)
  have "pix_request w (body\<lparr>total := t\<rparr>) = pix_request w body"
    and "pending_report w (body\<lparr>total := t\<rparr>) = pending_report w body"
    by (simp_all add: pix_request_def pending_report_def fun_eq_iff)
  then show "POST_create w (Some (body\<lparr>total := t\<rparr>)) = POST_create w (Some body)"
    by (simp add: POST_create_def cong: option.case_cong prod.case_cong if_cong)
qed

theorem charge_amount_recomputed_witness:
  "items example_body = Some example_items \<and> example_items \<noteq> [] \<and>
   Call_createPixPayment example_request \<in>
     set (effects (POST_create example_world (Some example_body))) \<and>
   amount example_request = 25 \<and>
   POST_create example_world (Some (example_body\<lparr>total := 25\<rparr>)) =
     POST_create example_world (Some example_body)"
proof -
  have h1: "items example_body = Some example_items" by (simp add: example_body_def)
  have h2: "example_items \<noteq> []" by (simp add: example_items_def)
  have h3: "Call_createPixPayment example_request \<in>
     set (effects (POST_create example_world (Some example_body)))"
    by (simp add: create_defs example_defs)
  note t = charge_amount_recomputed [OF h1 h2 h3 disjI1 [OF refl], of 25]
  have sum: "(\<Sum>item\<leftarrow>example_items. item_price item * item_quantity item) +
        (case shipping example_body of None \<Rightarrow> 0 | Some s \<Rightarrow> shipping_price s) = 25"
    by (simp add: example_items_def example_body_def)
  from t [THEN conjunct1] sum have "amount example_request = 25" by simp
  with h1 h2 h3 t [THEN conjunct2] show ?thesis by simp
qed

section \<open>Document normalization\<close>

text \<open>
  C2. Normalizing the document keeps exactly its digits, in order (so \<open>123.456.789-01\<close>
  becomes \<open>12345678901\<close>). When the normalized document does not have 11 digits the
  handler answers 400 and does nothing outside. When it has 11 digits, every call to the
  Payment Provider carries the normalized string as the document; and when moreover the
  other customer fields are present and the item list is not empty, the handler does call
  the Payment Provider with it.
\<close>

theorem document_normalized:
  "replace_non_digits s = filter isDigit s \<and>
   replace_non_digits ''123.456.789-01'' = ''12345678901'' \<and>
   (Option.bind (customer body) customer_cpf = Some s \<and> length (replace_non_digits s) \<noteq> 11 \<longrightarrow>
      http_status (response (POST_create w (Some body))) = 400 \<and>
      effects (POST_create w (Some body)) = []) \<and>
   (Option.bind (customer body) customer_cpf = Some s \<and> length (replace_non_digits s) = 11 \<and>
    x \<in> set (effects (POST_create w (Some body))) \<and>
    (x = Call_createPixPayment r \<or> x = Fetch_SlimPay h r) \<longrightarrow>
      client_document (client r) = replace_non_digits s) \<and>
   (Option.bind (customer body) customer_cpf = Some s \<and> length (replace_non_digits s) = 11 \<and>
    truthy (Option.bind (customer body) customer_name) \<and>
    truthy (Option.bind (customer body) customer_email) \<and>
    truthy (Option.bind (customer body) customer_phone) \<and>
    items body = Some its \<and> its \<noteq> [] \<longrightarrow>
      (\<exists>r' fx. effects (POST_create w (Some body)) = Call_createPixPayment r' # fx \<and>
         client_document (client r') = replace_non_digits s))"
proof (intro conjI impI)
  show "replace_non_digits s = filter isDigit s" by (rule replace_non_digits_filter)
  show "replace_non_digits ''123.456.789-01'' = ''12345678901''" by (simp add: isDigit_def)
next
  assume a: "Option.bind (customer body) customer_cpf = Some s \<and> length (replace_non_digits s) \<noteq> 11"
  have "required_customer (customer body) = None \<or>
     (\<exists>n e c p. required_customer (customer body) = Some (n, e, c, p) \<and>
        length (replace_non_digits c) \<noteq> 11)"
  proof (cases "required_customer (customer body)")
    case None
    then show ?thesis by simp
  next
    case (Some t)
    obtain n e c p where t: "t = (n, e, c, p)" by (cases t)
    from Some t a have "c = s"
      by (auto simp add: required_customer_eq_Some present_eq_Some)
    with Some t a show ?thesis by simp
  qed
  then have "required_customer (customer body) = None \<or> items body = None \<or>
     items body = Some [] \<or>
     (\<exists>n e c p. required_customer (customer body) = Some (n, e, c, p) \<and>
        length (replace_non_digits c) \<noteq> 11)"
    by blast
  from POST_create_invalid [OF this]
  show "http_status (response (POST_create w (Some body))) = 400"
    and "effects (POST_create w (Some body)) = []"
    by simp_all
next
  assume a: "Option.bind (customer body) customer_cpf = Some s \<and>
    length (replace_non_digits s) = 11 \<and>
    x \<in> set (effects (POST_create w (Some body))) \<and>
    (x = Call_createPixPayment r \<or> x = Fetch_SlimPay h r)"
  then have "x \<in> set (effects (POST_create w (Some body)))"
    and "x = Call_createPixPayment r \<or> x = Fetch_SlimPay h r"
    by simp_all
  from POST_create_charge_of_effect [OF this]
  obtain n e c p its' where v: "required_customer (customer body) = Some (n, e, c, p)"
    "r = pix_request w body n e c p its'"
    by auto
  from v(1) a have "c = s"
    by (auto simp add: required_customer_eq_Some present_eq_Some)
  with v(2) show "client_document (client r) = replace_non_digits s"
    by (simp add: pix_request_def Let_def)
next
  assume a: "Option.bind (customer body) customer_cpf = Some s \<and>
    length (replace_non_digits s) = 11 \<and>
    truthy (Option.bind (customer body) customer_name) \<and>
    truthy (Option.bind (customer body) customer_email) \<and>
    truthy (Option.bind (customer body) customer_phone) \<and>
    items body = Some its \<and> its \<noteq> []"
  then have "s \<noteq> []" by auto
  with a have "truthy (Option.bind (customer body) customer_cpf)" by (simp add: truthy_def)
  with a have "required_customer (customer body) \<noteq> None"
    by (simp add: required_customer_eq_None)
  then obtain n e c p where rc: "required_customer (customer body) = Some (n, e, c, p)"
    by auto
  with a have c: "c = s"
    by (auto simp add: required_customer_eq_Some present_eq_Some)
  from a have its: "items body = Some its" "its \<noteq> []" "length (replace_non_digits c) = 11"
    by (simp_all add: c)
  note fx = POST_create_effects_valid [OF rc its, of w]
  have "client_document (client (pix_request w body n e c p its)) = replace_non_digits s"
    by (simp add: pix_request_def Let_def c)
  with fx show "\<exists>r' fx. effects (POST_create w (Some body)) = Call_createPixPayment r' # fx \<and>
         client_document (client r') = replace_non_digits s"
    by blast
qed


theorem document_normalized_witness:
  "Option.bind (customer short_cpf_body) customer_cpf = Some ''123.456.789-0'' \<and>
   length (replace_non_digits ''123.456.789-0'') \<noteq> 11 \<and>
   http_status (response (POST_create example_world (Some short_cpf_body))) = 400 \<and>
   effects (POST_create example_world (Some short_cpf_body)) = [] \<and>
   Option.bind (customer example_body) customer_cpf = Some ''123.456.789-01'' \<and>
   length (replace_non_digits ''123.456.789-01'') = 11 \<and>
   Call_createPixPayment example_request \<in>
     set (effects (POST_create example_world (Some example_body))) \<and>
   client_document (client example_request) = ''12345678901''"
proof -
  have a1: "Option.bind (customer short_cpf_body) customer_cpf = Some ''123.456.789-0''"
    by (simp add: short_cpf_body_def)
  have a2: "length (replace_non_digits ''123.456.789-0'') \<noteq> 11"
    by (simp add: isDigit_def)
  note short = document_normalized [where s = "''123.456.789-0''" and body = short_cpf_body
      and w = example_world]
  note rejected = short [THEN conjunct2, THEN conjunct2, THEN conjunct1, THEN mp,
      OF conjI [OF a1 a2]]
  have b1: "Option.bind (customer example_body) customer_cpf = Some ''123.456.789-01''"
    by (simp add: example_body_def)
  have b2: "length (replace_non_digits ''123.456.789-01'') = 11"
    by (simp add: isDigit_def)
  have b3: "Call_createPixPayment example_request \<in>
     set (effects (POST_create example_world (Some example_body)))"
    by (simp add: create_defs example_defs)
  note full = document_normalized [where s = "''123.456.789-01''" and body = example_body
      and w = example_world and x = "Call_createPixPayment example_request"
      and r = example_request]
  note sent = full [THEN conjunct2, THEN conjunct2, THEN conjunct2, THEN conjunct1, THEN mp,
      OF conjI [OF b1 conjI [OF b2 conjI [OF b3 disjI1 [OF refl]]]]]
  have "replace_non_digits ''123.456.789-01'' = ''12345678901''"
    by (rule full [THEN conjunct2, THEN conjunct1])
  with sent have "client_document (client example_request) = ''12345678901''" by simp
  with a1 a2 rejected b1 b2 b3 show ?thesis by simp
qed

section \<open>Webhook token\<close>

text \<open>
  C3. When an expected webhook token is configured (a non-empty value) and the payload's
  token differs from it, the webhook handler answers 401 and does nothing outside, so no
  Tracking Service call is made. \<open>verifyWebhookToken\<close> returns true when no expected
  token is configured, and otherwise returns true exactly when the received token equals
  the expected one.
\<close>

theorem webhook_token_checked:
  "(truthy (SLIMPAY_WEBHOOK_TOKEN w) \<and> token payload \<noteq> SLIMPAY_WEBHOOK_TOKEN w \<longrightarrow>
      POST_webhook w (Some payload) =
        \<lparr>response = \<lparr>http_status = 401, http_body = Error_body ''Invalid token''\<rparr>,
         effects = []\<rparr>) \<and>
   (\<not> truthy expected \<longrightarrow> verifyWebhookToken received expected) \<and>
   (truthy expected \<longrightarrow> verifyWebhookToken received expected = (received = expected))"
  by (simp add: POST_webhook_def verifyWebhookToken_def Let_def)

theorem webhook_token_checked_witness:
  "truthy (SLIMPAY_WEBHOOK_TOKEN example_world) \<and>
   token forged_payload \<noteq> SLIMPAY_WEBHOOK_TOKEN example_world \<and>
   http_status (response (POST_webhook example_world (Some forged_payload))) = 401 \<and>
   effects (POST_webhook example_world (Some forged_payload)) = [] \<and>
   \<not> truthy None \<and> verifyWebhookToken (Some ''guess'') None \<and>
   truthy (Some ''secret'') \<and> \<not> verifyWebhookToken (Some ''guess'') (Some ''secret'') \<and>
   verifyWebhookToken (Some ''secret'') (Some ''secret'')"
proof -
  have a1: "truthy (SLIMPAY_WEBHOOK_TOKEN example_world)"
    by (simp add: example_world_def truthy_def)
  have a2: "token forged_payload \<noteq> SLIMPAY_WEBHOOK_TOKEN example_world"
    by (simp add: example_world_def forged_payload_def example_payload_def)
  note forged = webhook_token_checked [where w = example_world and payload = forged_payload,
      THEN conjunct1, THEN mp, OF conjI [OF a1 a2]]
  have b1: "\<not> truthy None" by (simp add: truthy_def)
  note skipped = webhook_token_checked [where expected = None and received = "Some ''guess''",
      THEN conjunct2, THEN conjunct1, THEN mp, OF b1]
  have c1: "truthy (Some ''secret'')" by (simp add: truthy_def)
  note wrong = webhook_token_checked [where expected = "Some ''secret''"
      and received = "Some ''guess''", THEN conjunct2, THEN conjunct2, THEN mp, OF c1]
  note right = webhook_token_checked [where expected = "Some ''secret''"
      and received = "Some ''secret''", THEN conjunct2, THEN conjunct2, THEN mp, OF c1]
  from forged have "http_status (response (POST_webhook example_world (Some forged_payload))) = 401"
    and "effects (POST_webhook example_world (Some forged_payload)) = []"
    by simp_all
  with a1 a2 b1 skipped c1 wrong right show ?thesis by simp
qed

section \<open>Incomplete checkouts\<close>

text \<open>
  C5. When the customer's name, email, document or phone is missing or empty, or the item
  list is missing or empty, the charge-creation handler answers 400 with a message
  (\<open>Dados do cliente incompletos\<close> for the customer, \<open>Carrinho vazio\<close> for the
  items) and does nothing outside: it calls neither the Payment Provider nor the Tracking
  Service.
\<close>

theorem incomplete_checkout_rejected:
  assumes "\<not> truthy (Option.bind (customer body) customer_name) \<or>
     \<not> truthy (Option.bind (customer body) customer_email) \<or>
     \<not> truthy (Option.bind (customer body) customer_cpf) \<or>
     \<not> truthy (Option.bind (customer body) customer_phone) \<or>
     items body = None \<or> items body = Some []"
  shows "POST_create w (Some body) =
     \<lparr>response = \<lparr>http_status = 400,
        http_body = Error_body
          (if \<not> truthy (Option.bind (customer body) customer_name) \<or>
              \<not> truthy (Option.bind (customer body) customer_email) \<or>
              \<not> truthy (Option.bind (customer body) customer_cpf) \<or>
              \<not> truthy (Option.bind (customer body) customer_phone)
           then ''Dados do cliente incompletos'' else ''Carrinho vazio'')\<rparr>,
      effects = []\<rparr>"
proof (cases "required_customer (customer body)")
  case None
  moreover from None have "\<not> truthy (Option.bind (customer body) customer_name) \<or>
     \<not> truthy (Option.bind (customer body) customer_email) \<or>
     \<not> truthy (Option.bind (customer body) customer_cpf) \<or>
     \<not> truthy (Option.bind (customer body) customer_phone)"
    by (simp only: required_customer_eq_None)
  ultimately show ?thesis by (simp add: POST_create_def bad_request_def)
next
  case (Some t)
  obtain n e c p where t: "t = (n, e, c, p)" by (cases t)
  from Some have ok: "\<not> (\<not> truthy (Option.bind (customer body) customer_name) \<or>
     \<not> truthy (Option.bind (customer body) customer_email) \<or>
     \<not> truthy (Option.bind (customer body) customer_cpf) \<or>
     \<not> truthy (Option.bind (customer body) customer_phone))"
    by (simp only: required_customer_eq_None [symmetric]) simp
  with assms have "items body = None \<or> items body = Some []" by blast
  then show ?thesis
  proof
    assume "items body = None"
    with Some t ok show ?thesis by (simp add: POST_create_def bad_request_def)
  next
    assume "items body = Some []"
    with Some t ok show ?thesis by (simp add: POST_create_def bad_request_def)
  qed
qed

theorem incomplete_checkout_rejected_witness:
  "\<not> truthy (Option.bind (customer incomplete_body) customer_email) \<and>
   POST_create example_world (Some incomplete_body) =
     \<lparr>response = \<lparr>http_status = 400, http_body = Error_body ''Dados do cliente incompletos''\<rparr>,
      effects = []\<rparr>"
proof -
  have a: "\<not> truthy (Option.bind (customer incomplete_body) customer_email)"
    by (simp add: incomplete_body_def truthy_def)
  note t = incomplete_checkout_rejected [where body = incomplete_body and w = example_world,
      OF disjI2 [OF disjI1 [OF a]]]
  from a t show ?thesis by simp
qed

section \<open>Postal code\<close>

text \<open>
  C8. The postal code is first reduced to its digits; when exactly 8 digits remain, the
  result is the first five, a hyphen and the last three (\<open>12345678\<close> becomes
  \<open>12345-678\<close>), otherwise it is the digit string unchanged. This is the zip code of
  every call the handler makes to the Payment Provider.
\<close>

theorem postal_code_normalized:
  "cepFormatted cep =
     (if length (filter isDigit cep) = 8
      then take 5 (filter isDigit cep) @ ''-'' @ drop 5 (filter isDigit cep)
      else filter isDigit cep) \<and>
   cepFormatted ''12345678'' = ''12345-678'' \<and>
   (x \<in> set (effects (POST_create w (Some body))) \<and>
    (x = Call_createPixPayment r \<or> x = Fetch_SlimPay h r) \<longrightarrow>
      map_option sp_zipCode (client_address (client r)) =
        Some (cepFormatted (address_cep (address body))))"
proof (intro conjI impI)
  show "cepFormatted cep =
     (if length (filter isDigit cep) = 8
      then take 5 (filter isDigit cep) @ ''-'' @ drop 5 (filter isDigit cep)
      else filter isDigit cep)"
    by (simp add: cepFormatted_def Let_def replace_non_digits_filter)
  show "cepFormatted ''12345678'' = ''12345-678''"
    by (simp add: cepFormatted_def Let_def isDigit_def)
next
  assume a: "x \<in> set (effects (POST_create w (Some body))) \<and>
    (x = Call_createPixPayment r \<or> x = Fetch_SlimPay h r)"
  then have "x \<in> set (effects (POST_create w (Some body)))"
    and "x = Call_createPixPayment r \<or> x = Fetch_SlimPay h r"
    by simp_all
  from POST_create_charge_of_effect [OF this]
  obtain n e c p its where "r = pix_request w body n e c p its" by auto
  then show "map_option sp_zipCode (client_address (client r)) =
        Some (cepFormatted (address_cep (address body)))"
    by (simp add: pix_request_def Let_def)
qed

theorem postal_code_normalized_witness:
  "Call_createPixPayment example_request \<in>
     set (effects (POST_create example_world (Some example_body))) \<and>
   address_cep (address example_body) = ''12345678'' \<and>
   map_option sp_zipCode (client_address (client example_request)) = Some ''12345-678''"
proof -
  have a: "Call_createPixPayment example_request \<in>
     set (effects (POST_create example_world (Some example_body)))"
    by (simp add: create_defs example_defs)
  have b: "address_cep (address example_body) = ''12345678''"
    by (simp add: example_body_def)
  note t = postal_code_normalized [where x = "Call_createPixPayment example_request"
      and r = example_request and w = example_world and body = example_body]
  note zip = t [THEN conjunct2, THEN conjunct2, THEN mp, OF conjI [OF a disjI1 [OF refl]]]
  note ex = t [THEN conjunct2, THEN conjunct1]
  from zip b ex have "map_option sp_zipCode (client_address (client example_request)) =
     Some ''12345-678''"
    by simp
  with a b show ?thesis by simp
qed

section \<open>Tracking failures\<close>

text \<open>
  C4. When the handler has called the Payment Provider's create-charge operation and the
  call succeeded with charge data, the response is the 200 success response made of the
  transaction id, the order id, the PIX code, its expiry and the order's id and amount;
  and the handler's response is the same whatever the Tracking Service answers (and
  whatever the clock and the date parser of the tracking client do). When the Tracking
  Service answers a request of \<open>sendOrderToUtmfy\<close> with any status, the \<open>try\<close> block
  returns normally: the result's success flag is the response's ok flag, its error is the
  response body on a failure status, and its response field is the body in both cases.
\<close>

theorem tracking_failure_isolated:
  "(Call_createPixPayment r \<in> set (effects (POST_create w (Some body))) \<and>
    pix_success (fst (createPixPayment w r)) \<and> pix_data (fst (createPixPayment w r)) = Some d \<longrightarrow>
      response (POST_create w (Some body)) =
        \<lparr>http_status = 200,
         http_body = Create_ok (transactionId d) (generated_orderId w) (pix_qrCode (pix d))
           (pix_expiresAt (pix d)) (order_id (order d)) (order_amount (order d))\<rparr>) \<and>
   response (POST_create (w\<lparr>utmfy_fetch := u, now_iso := nw, date_iso := dt\<rparr>) rq) =
     response (POST_create w rq) \<and>
   (Fetch_Utmfy ord \<in> set (snd (sendOrderToUtmfy_try w ps)) \<and>
    utmfy_fetch w ord = UtmfyResponded ok body_text \<longrightarrow>
      fst (sendOrderToUtmfy_try w ps) =
        Inr \<lparr>utmfy_success = ok, utmfy_error = (if ok then None else Some body_text),
             utmfy_response = Some body_text\<rparr> \<and>
      fst (sendOrderToUtmfy w ps) =
        \<lparr>utmfy_success = ok, utmfy_error = (if ok then None else Some body_text),
         utmfy_response = Some body_text\<rparr>)"
proof (intro conjI impI)
  show "response (POST_create (w\<lparr>utmfy_fetch := u, now_iso := nw, date_iso := dt\<rparr>) rq) =
     response (POST_create w rq)"
    by (rule POST_create_response_tracking_irrelevant)
next
  assume a: "Call_createPixPayment r \<in> set (effects (POST_create w (Some body))) \<and>
    pix_success (fst (createPixPayment w r)) \<and> pix_data (fst (createPixPayment w r)) = Some d"
  then have "Call_createPixPayment r \<in> set (effects (POST_create w (Some body)))"
    and "Call_createPixPayment r = Call_createPixPayment r \<or>
         Call_createPixPayment r = Fetch_SlimPay [] r"
    by simp_all
  from POST_create_charge_of_effect [OF this]
  obtain n e c p its where v: "required_customer (customer body) = Some (n, e, c, p)"
    "items body = Some its" "its \<noteq> []" "length (replace_non_digits c) = 11"
    and r: "r = pix_request w body n e c p its"
    by auto
  from a show "response (POST_create w (Some body)) =
        \<lparr>http_status = 200,
         http_body = Create_ok (transactionId d) (generated_orderId w) (pix_qrCode (pix d))
           (pix_expiresAt (pix d)) (order_id (order d)) (order_amount (order d))\<rparr>"
    unfolding POST_create_response_valid [OF v] r by simp
next
  assume a: "Fetch_Utmfy ord \<in> set (snd (sendOrderToUtmfy_try w ps)) \<and>
    utmfy_fetch w ord = UtmfyResponded ok body_text"
  have tried: "fst (sendOrderToUtmfy_try w ps) =
        Inr \<lparr>utmfy_success = ok, utmfy_error = (if ok then None else Some body_text),
             utmfy_response = Some body_text\<rparr>"
  proof (cases "formatUtmfyDate w (Some (DateObject (now_iso w)))")
    case (Inl e)
    with a show ?thesis by (simp add: sendOrderToUtmfy_try_def)
  next
    case created: (Inr created)
    show ?thesis
    proof (cases "if truthy (so_approvedDate ps)
                   then formatUtmfyDate w (map_option DateString (so_approvedDate ps))
                   else Inr None")
      case (Inl e)
      with a created show ?thesis by (simp add: sendOrderToUtmfy_try_def)
    next
      case approved: (Inr approved)
      from a created approved have "ord = utmfy_order ps created approved"
        by (simp add: sendOrderToUtmfy_try_def Let_def)
      with a have "utmfy_fetch w (utmfy_order ps created approved) = UtmfyResponded ok body_text"
        by simp
      with created approved show ?thesis by (simp add: sendOrderToUtmfy_try_def Let_def)
    qed
  qed
  then show "fst (sendOrderToUtmfy_try w ps) =
        Inr \<lparr>utmfy_success = ok, utmfy_error = (if ok then None else Some body_text),
             utmfy_response = Some body_text\<rparr>" .
  from tried show "fst (sendOrderToUtmfy w ps) =
        \<lparr>utmfy_success = ok, utmfy_error = (if ok then None else Some body_text),
         utmfy_response = Some body_text\<rparr>"
    by (cases "sendOrderToUtmfy_try w ps") (simp add: sendOrderToUtmfy_def)
qed


theorem tracking_failure_isolated_witness:
  "Call_createPixPayment example_request \<in>
     set (effects (POST_create example_world (Some example_body))) \<and>
   pix_success (fst (createPixPayment example_world example_request)) \<and>
   pix_data (fst (createPixPayment example_world example_request)) = Some example_charge \<and>
   Fetch_Utmfy example_order \<in> set (snd (sendOrderToUtmfy_try example_world example_report)) \<and>
   utmfy_fetch example_world example_order = UtmfyResponded False ''rate limited'' \<and>
   response (POST_create example_world (Some example_body)) =
     \<lparr>http_status = 200,
      http_body = Create_ok ''tx-1'' ''ORD-1'' ''000201'' ''2026-01-01T00:30:00.000Z'' ''ord-1'' 25\<rparr> \<and>
   fst (sendOrderToUtmfy example_world example_report) =
     \<lparr>utmfy_success = False, utmfy_error = Some ''rate limited'',
      utmfy_response = Some ''rate limited''\<rparr>"
proof -
  have a1: "Call_createPixPayment example_request \<in>
     set (effects (POST_create example_world (Some example_body)))"
    by (simp add: create_defs example_defs)
  have a2: "pix_success (fst (createPixPayment example_world example_request))"
    by (simp add: createPixPayment_def getHeaders_def present_def example_world_def)
  have a3: "pix_data (fst (createPixPayment example_world example_request)) = Some example_charge"
    by (simp add: createPixPayment_def getHeaders_def present_def example_world_def)
  have b1: "Fetch_Utmfy example_order \<in>
     set (snd (sendOrderToUtmfy_try example_world example_report))"
    by (simp add: sendOrderToUtmfy_try_def formatUtmfyDate_def truthy_def Let_def
        example_order_def example_report_def pending_report_def example_world_def)
  have b2: "utmfy_fetch example_world example_order = UtmfyResponded False ''rate limited''"
    by (simp add: example_world_def)
  note t = tracking_failure_isolated [where r = example_request and w = example_world
      and body = example_body and d = example_charge and ord = example_order
      and ps = example_report and ok = False and body_text = "''rate limited''"]
  note answered = t [THEN conjunct1, THEN mp, OF conjI [OF a1 conjI [OF a2 a3]]]
  note reported = t [THEN conjunct2, THEN conjunct2, THEN mp, OF conjI [OF b1 b2], THEN conjunct2]
  from answered have "response (POST_create example_world (Some example_body)) =
     \<lparr>http_status = 200,
      http_body = Create_ok ''tx-1'' ''ORD-1'' ''000201'' ''2026-01-01T00:30:00.000Z'' ''ord-1'' 25\<rparr>"
    by (simp add: example_charge_def example_world_def)
  moreover from reported have "fst (sendOrderToUtmfy example_world example_report) =
     \<lparr>utmfy_success = False, utmfy_error = Some ''rate limited'',
      utmfy_response = Some ''rate limited''\<rparr>"
    by simp
  ultimately show ?thesis using a1 a2 a3 b1 b2 by simp
qed

section \<open>Metadata sent to the Payment Provider\<close>

text \<open>
  C9, as the claim states it, fails: on the checkout of the scenario, whose tracking
  parameters set all seven attribution fields, the metadata of the create-charge call holds
  the source tag and the three fields utm_source, utm_medium and utm_campaign only; src,
  sck, utm_content and utm_term are not in it.
\<close>

theorem metadata_full_set_counterexample:
  "Call_createPixPayment example_request \<in>
     set (effects (POST_create example_world (Some example_body))) \<and>
   Option.bind (trackingParams example_body) src = Some ''fb'' \<and>
   Option.bind (trackingParams example_body) sck = Some ''k1'' \<and>
   Option.bind (trackingParams example_body) utm_content = Some ''banner'' \<and>
   Option.bind (trackingParams example_body) utm_term = Some ''caderno'' \<and>
   metadata example_request =
     Some [(''source'', ''CometaPapelaria''), (''utm_source'', ''news''),
           (''utm_medium'', ''email''), (''utm_campaign'', ''jan'')]"
  by (simp add: create_defs example_defs)

text \<open>
  C9, amended. The metadata bag of every create-charge call is present, has no repeated
  key, and maps \<open>source\<close> to the fixed tag, each of utm_source, utm_medium and
  utm_campaign to its value in the request's tracking parameters when that value is
  present and non-empty, and no other key to anything.
\<close>

theorem metadata_forwards_utm_fields:
  "x \<in> set (effects (POST_create w (Some body))) \<and>
   (x = Call_createPixPayment r \<or> x = Fetch_SlimPay h r) \<longrightarrow>
     (case metadata r of
        None \<Rightarrow> False
      | Some m \<Rightarrow>
          distinct (map fst m) \<and>
          map_of m k =
            (if k = ''source'' then Some ''CometaPapelaria''
             else if k = ''utm_source'' then present (Option.bind (trackingParams body) utm_source)
             else if k = ''utm_medium'' then present (Option.bind (trackingParams body) utm_medium)
             else if k = ''utm_campaign''
               then present (Option.bind (trackingParams body) utm_campaign)
             else None))"
proof
  assume a: "x \<in> set (effects (POST_create w (Some body))) \<and>
   (x = Call_createPixPayment r \<or> x = Fetch_SlimPay h r)"
  then have "x \<in> set (effects (POST_create w (Some body)))"
    and "x = Call_createPixPayment r \<or> x = Fetch_SlimPay h r"
    by simp_all
  from POST_create_charge_of_effect [OF this]
  obtain n e c p its where "r = pix_request w body n e c p its" by auto
  then have "metadata r = Some (charge_metadata (trackingParams body))"
    by (simp add: pix_request_def Let_def)
  with charge_metadata_map_of [of "trackingParams body" k]
  show "case metadata r of
        None \<Rightarrow> False
      | Some m \<Rightarrow>
          distinct (map fst m) \<and>
          map_of m k =
            (if k = ''source'' then Some ''CometaPapelaria''
             else if k = ''utm_source'' then present (Option.bind (trackingParams body) utm_source)
             else if k = ''utm_medium'' then present (Option.bind (trackingParams body) utm_medium)
             else if k = ''utm_campaign''
               then present (Option.bind (trackingParams body) utm_campaign)
             else None)"
    by simp
qed

theorem metadata_forwards_utm_fields_witness:
  "Call_createPixPayment example_request \<in>
     set (effects (POST_create example_world (Some example_body))) \<and>
   (case metadata example_request of
      None \<Rightarrow> False
    | Some m \<Rightarrow> distinct (map fst m) \<and> map_of m ''utm_medium'' = Some ''email'') \<and>
   (case metadata example_request of
      None \<Rightarrow> False
    | Some m \<Rightarrow> distinct (map fst m) \<and> map_of m ''utm_term'' = None)"
proof -
  have a: "Call_createPixPayment example_request \<in>
     set (effects (POST_create example_world (Some example_body)))"
    by (simp add: create_defs example_defs)
  note t1 = metadata_forwards_utm_fields [where x = "Call_createPixPayment example_request"
      and r = example_request and w = example_world and body = example_body
      and k = "''utm_medium''", THEN mp, OF conjI [OF a disjI1 [OF refl]]]
  note t2 = metadata_forwards_utm_fields [where x = "Call_createPixPayment example_request"
      and r = example_request and w = example_world and body = example_body
      and k = "''utm_term''", THEN mp, OF conjI [OF a disjI1 [OF refl]]]
  have m: "present (Option.bind (trackingParams example_body) utm_medium) = Some ''email''"
    by (simp add: example_body_def present_def)
  from t1 m
  have "case metadata example_request of
      None \<Rightarrow> False
    | Some m \<Rightarrow> distinct (map fst m) \<and> map_of m ''utm_medium'' = Some ''email''"
    by (cases "metadata example_request") simp_all
  moreover from t2
  have "case metadata example_request of
      None \<Rightarrow> False
    | Some m \<Rightarrow> distinct (map fst m) \<and> map_of m ''utm_term'' = None"
    by (cases "metadata example_request") simp_all
  ultimately show ?thesis using a by simp
qed

section \<open>Commission breakdown\<close>

text \<open>
  C10. In every order report the charge-creation handler and the webhook handler send to
  the Tracking Service (the argument of \<open>sendOrderToUtmfy\<close> and the report posted), the
  gateway fee is 0 and the user commission equals the total price, which is the amount
  times 100 rounded by \<open>Math.round\<close>: the charged amount (items plus shipping) in the
  charge-creation handler, the transaction amount in the webhook handler, whose paid,
  canceled and refunded branches are the only ones that report. \<open>Math.round\<close> returns an
  integer.
\<close>

theorem commission_breakdown:
  "(x \<in> set (effects (POST_create w (Some body))) \<and> items body = Some its \<longrightarrow>
      (x = Fetch_Utmfy ord \<longrightarrow>
         gatewayFeeInCents (uo_commission ord) = 0 \<and>
         userCommissionInCents (uo_commission ord) = totalPriceInCents (uo_commission ord) \<and>
         totalPriceInCents (uo_commission ord) =
           Math_round (((\<Sum>item\<leftarrow>its. item_price item * item_quantity item) +
             (case shipping body of None \<Rightarrow> 0 | Some s \<Rightarrow> shipping_price s)) * 100)) \<and>
      (x = Call_sendOrderToUtmfy ps \<longrightarrow>
         so_gatewayFeeInCents (so_commission ps) = 0 \<and>
         so_userCommissionInCents (so_commission ps) = so_totalPriceInCents (so_commission ps) \<and>
         so_totalPriceInCents (so_commission ps) =
           Math_round (((\<Sum>item\<leftarrow>its. item_price item * item_quantity item) +
             (case shipping body of None \<Rightarrow> 0 | Some s \<Rightarrow> shipping_price s)) * 100))) \<and>
   (y \<in> set (effects (POST_webhook w (Some payload))) \<longrightarrow>
      (y = Fetch_Utmfy ord' \<longrightarrow>
         gatewayFeeInCents (uo_commission ord') = 0 \<and>
         userCommissionInCents (uo_commission ord') = totalPriceInCents (uo_commission ord') \<and>
         totalPriceInCents (uo_commission ord') =
           Math_round (tx_amount (wh_transaction payload) * 100)) \<and>
      (y = Call_sendOrderToUtmfy ps' \<longrightarrow>
         so_gatewayFeeInCents (so_commission ps') = 0 \<and>
         so_userCommissionInCents (so_commission ps') = so_totalPriceInCents (so_commission ps') \<and>
         so_totalPriceInCents (so_commission ps') =
           Math_round (tx_amount (wh_transaction payload) * 100))) \<and>
   Math_round v \<in> \<int>"
proof (intro conjI impI)
  show "Math_round v \<in> \<int>" by (simp add: Math_round_def)
next
  assume a: "x \<in> set (effects (POST_create w (Some body))) \<and> items body = Some its"
    and x: "x = Fetch_Utmfy ord"
  from a x have "x \<in> set (effects (POST_create w (Some body)))"
    and "x = Call_sendOrderToUtmfy ps \<or> x = Fetch_Utmfy ord"
    by simp_all
  from POST_create_report_of_effect [OF this] a x
  obtain n e c p created approved
    where ord: "ord = utmfy_order (pending_report w body n e c p its) created approved"
    by auto
  show "gatewayFeeInCents (uo_commission ord) = 0"
    and "userCommissionInCents (uo_commission ord) = totalPriceInCents (uo_commission ord)"
    and "totalPriceInCents (uo_commission ord) =
           Math_round (((\<Sum>item\<leftarrow>its. item_price item * item_quantity item) +
             (case shipping body of None \<Rightarrow> 0 | Some s \<Rightarrow> shipping_price s)) * 100)"
    unfolding ord utmfy_order_commission
    by (simp_all add: pending_report_def Let_def finalAmount_def productsTotal_sum_list
        shippingFee_of_eq)
next
  assume a: "x \<in> set (effects (POST_create w (Some body))) \<and> items body = Some its"
    and x: "x = Call_sendOrderToUtmfy ps"
  from a x have "x \<in> set (effects (POST_create w (Some body)))"
    and "x = Call_sendOrderToUtmfy ps \<or> x = Fetch_Utmfy ord"
    by simp_all
  from POST_create_report_of_effect [OF this] a x
  obtain n e c p where ps: "ps = pending_report w body n e c p its"
    by auto
  show "so_gatewayFeeInCents (so_commission ps) = 0"
    and "so_userCommissionInCents (so_commission ps) = so_totalPriceInCents (so_commission ps)"
    and "so_totalPriceInCents (so_commission ps) =
           Math_round (((\<Sum>item\<leftarrow>its. item_price item * item_quantity item) +
             (case shipping body of None \<Rightarrow> 0 | Some s \<Rightarrow> shipping_price s)) * 100)"
    unfolding ps
    by (simp_all add: pending_report_def Let_def finalAmount_def productsTotal_sum_list
        shippingFee_of_eq)
next
  assume a: "y \<in> set (effects (POST_webhook w (Some payload)))" and y: "y = Fetch_Utmfy ord'"
  from POST_webhook_report_of_effect [OF a] y
  obtain status approved c a'
    where ord: "ord' = utmfy_order (webhook_report w payload status approved) c a'"
    by auto
  show "gatewayFeeInCents (uo_commission ord') = 0"
    and "userCommissionInCents (uo_commission ord') = totalPriceInCents (uo_commission ord')"
    and "totalPriceInCents (uo_commission ord') =
           Math_round (tx_amount (wh_transaction payload) * 100)"
    unfolding ord utmfy_order_commission
    by (simp_all add: webhook_report_def Let_def)
next
  assume a: "y \<in> set (effects (POST_webhook w (Some payload)))"
    and y: "y = Call_sendOrderToUtmfy ps'"
  from POST_webhook_report_of_effect [OF a] y
  obtain status approved where ps: "ps' = webhook_report w payload status approved"
    by auto
  show "so_gatewayFeeInCents (so_commission ps') = 0"
    and "so_userCommissionInCents (so_commission ps') = so_totalPriceInCents (so_commission ps')"
    and "so_totalPriceInCents (so_commission ps') =
           Math_round (tx_amount (wh_transaction payload) * 100)"
    unfolding ps
    by (simp_all add: webhook_report_def Let_def)
qed


theorem commission_breakdown_witness:
  "Fetch_Utmfy example_order \<in> set (effects (POST_create example_world (Some example_body))) \<and>
   items example_body = Some example_items \<and>
   gatewayFeeInCents (uo_commission example_order) = 0 \<and>
   userCommissionInCents (uo_commission example_order) = 2500 \<and>
   totalPriceInCents (uo_commission example_order) = 2500 \<and>
   Fetch_Utmfy paid_order \<in> set (effects (POST_webhook example_world (Some example_payload))) \<and>
   tx_amount (wh_transaction example_payload) = 25 \<and>
   gatewayFeeInCents (uo_commission paid_order) = 0 \<and>
   userCommissionInCents (uo_commission paid_order) = 2500 \<and>
   totalPriceInCents (uo_commission paid_order) = 2500"
proof -
  have a1: "Fetch_Utmfy example_order \<in>
      set (effects (POST_create example_world (Some example_body)))"
    by (simp add: create_defs example_defs example_report_defs)
  have a2: "items example_body = Some example_items" by (simp add: example_body_def)
  have b1: "Fetch_Utmfy paid_order \<in>
      set (effects (POST_webhook example_world (Some example_payload)))"
    by (simp add: webhook_defs example_defs example_report_defs)
  have b2: "tx_amount (wh_transaction example_payload) = 25" by (simp add: example_payload_def)
  note t = commission_breakdown [where x = "Fetch_Utmfy example_order" and ord = example_order
      and w = example_world and body = example_body and its = example_items
      and y = "Fetch_Utmfy paid_order" and ord' = paid_order and payload = example_payload]
  note created = t [THEN conjunct1, THEN mp, OF conjI [OF a1 a2], THEN conjunct1, THEN mp, OF refl]
  note paid = t [THEN conjunct2, THEN conjunct1, THEN mp, OF b1, THEN conjunct1, THEN mp, OF refl]
  have total: "Math_round (((\<Sum>item\<leftarrow>example_items. item_price item * item_quantity item) +
      (case shipping example_body of None \<Rightarrow> 0 | Some s \<Rightarrow> shipping_price s)) * 100) = 2500"
    by (simp add: example_items_def example_body_def Math_round_def)
  have total': "Math_round (tx_amount (wh_transaction example_payload) * 100) = 2500"
    by (simp add: b2 Math_round_def)
  from created total have "gatewayFeeInCents (uo_commission example_order) = 0"
    and "userCommissionInCents (uo_commission example_order) = 2500"
    and "totalPriceInCents (uo_commission example_order) = 2500"
    by simp_all
  moreover from paid total' have "gatewayFeeInCents (uo_commission paid_order) = 0"
    and "userCommissionInCents (uo_commission paid_order) = 2500"
    and "totalPriceInCents (uo_commission paid_order) = 2500"
    by simp_all
  ultimately show ?thesis using a1 a2 b1 b2 by simp
qed

section \<open>Status mappings\<close>

text \<open>
  C6. \<open>mapSlimPayStatus\<close> is defined on every string: the seven provider statuses map as
  listed (COMPLETED to paid, PENDING to waiting_payment, FAILED, REJECTED and CANCELED to
  refused, REFUNDED to refunded, CHARGED_BACK to chargedback), every other string maps to
  waiting_payment, and every result is one of the five internal statuses.
\<close>

theorem mapSlimPayStatus_table:
  "mapSlimPayStatus ''COMPLETED'' = ''paid'' \<and>
   mapSlimPayStatus ''PENDING'' = ''waiting_payment'' \<and>
   mapSlimPayStatus ''FAILED'' = ''refused'' \<and>
   mapSlimPayStatus ''REJECTED'' = ''refused'' \<and>
   mapSlimPayStatus ''CANCELED'' = ''refused'' \<and>
   mapSlimPayStatus ''REFUNDED'' = ''refunded'' \<and>
   mapSlimPayStatus ''CHARGED_BACK'' = ''chargedback'' \<and>
   (s \<notin> {''COMPLETED'', ''PENDING'', ''FAILED'', ''REJECTED'', ''CANCELED'', ''REFUNDED'',
          ''CHARGED_BACK''} \<longrightarrow> mapSlimPayStatus s = ''waiting_payment'') \<and>
   mapSlimPayStatus s \<in> {''waiting_payment'', ''paid'', ''refused'', ''refunded'', ''chargedback''}"
  by (simp add: mapSlimPayStatus_def)

theorem mapSlimPayStatus_table_witness:
  "''EXPIRED'' \<notin> {''COMPLETED'', ''PENDING'', ''FAILED'', ''REJECTED'', ''CANCELED'',
       ''REFUNDED'', ''CHARGED_BACK''} \<and>
   mapSlimPayStatus ''EXPIRED'' = ''waiting_payment''"
proof -
  have h: "''EXPIRED'' \<notin> {''COMPLETED'', ''PENDING'', ''FAILED'', ''REJECTED'', ''CANCELED'',
       ''REFUNDED'', ''CHARGED_BACK''}"
    by simp
  note t = mapSlimPayStatus_table [of "''EXPIRED''"]
  note imp = t [THEN conjunct2, THEN conjunct2, THEN conjunct2, THEN conjunct2,
      THEN conjunct2, THEN conjunct2, THEN conjunct2, THEN conjunct1]
  from h imp [THEN mp, OF h] show ?thesis by (rule conjI)
qed

text \<open>
  C7. The canonical status \<open>chargedback\<close> is not among the cases of \<open>mapStatusToUtmfy\<close>
  (only the alias \<open>chargeback\<close> is), so it falls to the default and is reported as
  waiting_payment instead of being kept.
\<close>

theorem mapStatusToUtmfy_chargedback:
  "mapStatusToUtmfy ''chargedback'' = ''waiting_payment''"
  by (simp add: mapStatusToUtmfy_def)

end
